theory Spec2Isabelle
  imports Main
begin

section \<open>Values, completions and promises\<close>

text \<open>
  The embedding follows \<^verbatim>\<open>packages/runtime/src/get-mesh.ts\<close>. JavaScript values that the
  gateway only passes through (root values, arguments, contexts, data payloads) are
  \<open>jsval\<close>. An object with an identity is named by a reference; identities are what the
  memoization caches of the source (WeakMaps) are keyed by.
\<close>

type_synonym ref = nat

datatype jsval =
    Undefined
  | Null
  | JBool bool
  | JNum int
  | JStr string
  | JObj "(string \<times> jsval) list"

datatype error = Error string | TypeError string

text \<open>
  A call of a plain function either throws synchronously or returns a value. An
  \<^verbatim>\<open>async function\<close> never throws synchronously: it returns a promise, and an exception
  raised in its body is the rejection of that promise.
\<close>

datatype 'a completion = Throws error | Returns 'a

datatype 'a promise = Rejected error | Fulfilled 'a

definition async :: "error + 'a \<Rightarrow> 'a promise completion" where
  "async body = Returns (case body of Inl e \<Rightarrow> Rejected e | Inr v \<Rightarrow> Fulfilled v)"

section \<open>Schemas and selections\<close>

datatype OperationTypeNode = OpQuery | OpMutation | OpSubscription

datatype type_kind = ScalarKind | EnumKind | ObjectKind | InterfaceKind | UnionKind

datatype gql_type =
    NamedType string type_kind
  | ListType gql_type
  | NonNullType gql_type

text \<open>\<^verbatim>\<open>getNamedType\<close> and \<^verbatim>\<open>isLeafType\<close> of graphql-js: strip the list and non-null
  wrappers; a leaf type is a scalar or an enum.\<close>

fun getNamedType :: "gql_type \<Rightarrow> gql_type" where
  "getNamedType (NamedType n k) = NamedType n k"
| "getNamedType (ListType t) = getNamedType t"
| "getNamedType (NonNullType t) = getNamedType t"

fun isLeafType :: "gql_type \<Rightarrow> bool" where
  "isLeafType (NamedType n k) = (k = ScalarKind \<or> k = EnumKind)"
| "isLeafType (ListType t) = False"
| "isLeafType (NonNullType t) = False"

record object_type =
  ot_name :: string
  ot_fields :: "(string \<times> gql_type) list"

record schema =
  queryType :: "object_type option"
  mutationType :: "object_type option"
  subscriptionType :: "object_type option"

datatype selection =
    Field string "selection list option"
  | FragmentSpread string
  | InlineFragment "selection list"

text \<open>A field node of \<^verbatim>\<open>info.fieldNodes\<close>. The name is optional because the node the
  callable builds from an empty \<^verbatim>\<open>fieldNodes\<close> array (the spread of \<^verbatim>\<open>undefined\<close>) has a
  selection set and nothing else.\<close>

record field_node =
  fn_name :: "string option"
  fn_selectionSet :: "selection list option"

record resolve_info =
  ri_fieldName :: string
  ri_fieldNodes :: "field_node list"
  ri_returnType :: gql_type
  ri_parentType :: string
  ri_path :: "(string \<times> string) list"
  ri_schema :: schema
  ri_rootValue :: jsval
  ri_operation :: OperationTypeNode

text \<open>The store of resolve-info objects: the callable reads the caller's object and
  allocates new ones (the default parameter value, the patched copy).\<close>

record heap =
  cells :: "ref \<Rightarrow> resolve_info"
  nxt :: ref

definition alloc :: "resolve_info \<Rightarrow> heap \<Rightarrow> ref \<times> heap" where
  "alloc v h = (nxt h, h\<lparr>cells := (cells h)(nxt h := v), nxt := Suc (nxt h)\<rparr>)"

section \<open>Sources\<close>

record transform =
  t_name :: string
  noWrap :: bool

datatype executor = Executor string

record mesh_source =
  ms_schema :: schema
  ms_executor :: executor
  ms_contextVariables :: "(string \<times> jsval) list option"
  ms_batch :: "bool option"

text \<open>A handler is given by the outcome of its \<^verbatim>\<open>getMeshSource()\<close> promise.\<close>

datatype handler = Handler (getMeshSource: "error + mesh_source")

record api_source =
  as_name :: string
  as_handler :: handler
  as_transforms :: "transform list option"
  as_merge :: "jsval option"

record raw_source =
  rs_name :: string
  rs_schema :: schema
  rs_executor :: executor
  rs_transforms :: "transform list option"
  rs_contextVariables :: "(string \<times> jsval) list"
  rs_handler :: handler
  rs_batch :: bool
  rs_merge :: "jsval option"

record subschema_config =
  sc_name :: "string option"
  sc_schema :: schema
  sc_executor :: executor

datatype delegation_target = Subschema subschema_config | RawSource raw_source

section \<open>The in-context callable\<close>

datatype SelectionSetParam =
    SelString string
  | SelDocumentNode "selection list"
  | SelSelectionSetNode "selection list"

datatype SelectionSetParamOrFactory =
    Param SelectionSetParam
  | Factory "selection list \<Rightarrow> SelectionSetParam"

text \<open>The arguments of one invocation; \<open>None\<close> is a property that is absent or
  \<^verbatim>\<open>undefined\<close>.\<close>

record call_params =
  cp_root :: jsval
  cp_args :: jsval
  cp_context :: jsval
  cp_info :: "ref option"
  cp_selectionSet :: "SelectionSetParamOrFactory option"
  cp_key :: "string option"
  cp_argsFromKeys :: "(string list \<Rightarrow> jsval) option"
  cp_valuesFromResults :: "(jsval \<Rightarrow> string list option \<Rightarrow> jsval) option"

text \<open>\<^verbatim>\<open>new WrapQuery(path, selectionSetFactory, extractor)\<close>: the wrapper is
  \<^verbatim>\<open>normalizeSelectionSetParamOrFactory(selectionSet)\<close>, kept as the parameter it closes
  over.\<close>

record wrap_query =
  wq_path :: "string list"
  wq_wrapper :: SelectionSetParamOrFactory
  wq_extractor :: "jsval \<Rightarrow> string list option \<Rightarrow> jsval"

record delegate_options =
  do_schema :: "delegation_target option"
  do_rootValue :: jsval
  do_operation :: OperationTypeNode
  do_fieldName :: string
  do_context :: jsval
  do_transformedSchema :: schema
  do_info :: ref
  do_returnType :: "gql_type option"
  do_args :: "jsval option"
  do_key :: "string option"
  do_argsFromKeys :: "(string list \<Rightarrow> jsval) option"
  do_valuesFromResults :: "(jsval \<Rightarrow> string list option \<Rightarrow> jsval) option"
  do_transforms :: "wrap_query list option"

text \<open>The two delegation functions are external. A callable that does not throw ends with
  a call of one of them, and its outcome is the outcome of that call; the model records
  which function is called and the options it receives.\<close>

datatype delegation_call =
    delegateToSchema (opts: delegate_options)
  | batchDelegateToSchema (opts: delegate_options)

text \<open>The constants one callable closes over.\<close>

record field_ctx =
  fc_rawSourceName :: string
  fc_rawSourceSubSchemaConfig :: "delegation_target option"
  fc_transformedSchema :: schema
  fc_operationType :: OperationTypeNode
  fc_rootTypeName :: string
  fc_fieldName :: string
  fc_fieldType :: gql_type
  fc_namedReturnType :: gql_type
  fc_shouldHaveSelectionSet :: bool

definition identical :: "jsval \<Rightarrow> string list option \<Rightarrow> jsval" where
  "identical val keys = val"

text \<open>JavaScript truthiness of the two parameters the callable tests: \<^verbatim>\<open>undefined\<close> and
  the empty string are falsy, every object and function is truthy.\<close>

fun truthy_selectionSet :: "SelectionSetParamOrFactory option \<Rightarrow> bool" where
  "truthy_selectionSet None = False"
| "truthy_selectionSet (Some (Param (SelString s))) = (s \<noteq> [])"
| "truthy_selectionSet (Some (Param (SelDocumentNode d))) = True"
| "truthy_selectionSet (Some (Param (SelSelectionSetNode n))) = True"
| "truthy_selectionSet (Some (Factory f)) = True"

fun truthy_key :: "string option \<Rightarrow> bool" where
  "truthy_key None = False"
| "truthy_key (Some k) = (k \<noteq> [])"

fun is_function :: "SelectionSetParamOrFactory option \<Rightarrow> bool" where
  "is_function (Some (Factory f)) = True"
| "is_function (Some (Param p)) = False"
| "is_function None = False"

definition defaultInfo :: "field_ctx \<Rightarrow> jsval \<Rightarrow> resolve_info" where
  "defaultInfo fc root =
     \<lparr>ri_fieldName = fc_fieldName fc,
      ri_fieldNodes = [],
      ri_returnType = fc_namedReturnType fc,
      ri_parentType = fc_rootTypeName fc,
      ri_path = [(fc_rootTypeName fc, fc_fieldName fc)],
      ri_schema = fc_transformedSchema fc,
      ri_rootValue = root,
      ri_operation = fc_operationType fc\<rparr>"

definition selectionCount :: "field_node list \<Rightarrow> nat" where
  "selectionCount fieldNodes =
     foldl (\<lambda>count fieldNode.
              case fn_selectionSet fieldNode of
                None \<Rightarrow> count
              | Some selections \<Rightarrow> count + length selections)
       0 fieldNodes"

definition typenameSelections :: "selection list" where
  "typenameSelections = [Field ''__typename'' None]"

text \<open>\<^verbatim>\<open>{...info.fieldNodes[0], selectionSet: ...}\<close> followed by
  \<^verbatim>\<open>...info.fieldNodes.slice(1)\<close>.\<close>

definition patchedFieldNodes :: "field_node list \<Rightarrow> field_node list" where
  "patchedFieldNodes fieldNodes =
     (case fieldNodes of
        [] \<Rightarrow> [\<lparr>fn_name = None, fn_selectionSet = Some typenameSelections\<rparr>]
      | first # rest \<Rightarrow> first\<lparr>fn_selectionSet := Some typenameSelections\<rparr> # rest)"

definition patchInfo :: "resolve_info \<Rightarrow> resolve_info" where
  "patchInfo info = info\<lparr>ri_fieldNodes := patchedFieldNodes (ri_fieldNodes info)\<rparr>"

definition selectionSetErrorMessage :: "field_ctx \<Rightarrow> string" where
  "selectionSetErrorMessage fc =
     ''You have to provide '' @ [CHR 0x27] @ ''selectionSet'' @ [CHR 0x27] @ '' for context.''
       @ fc_rawSourceName fc @ ''.'' @ fc_rootTypeName fc @ ''.'' @ fc_fieldName fc"

definition dispatch :: "call_params \<Rightarrow> string \<Rightarrow> delegate_options \<Rightarrow> delegation_call" where
  "dispatch p fieldName commonDelegateOptions =
     (if truthy_key (cp_key p) \<and> cp_argsFromKeys p \<noteq> None then
        batchDelegateToSchema
          (commonDelegateOptions
             \<lparr>do_key := cp_key p,
              do_argsFromKeys := cp_argsFromKeys p,
              do_valuesFromResults := cp_valuesFromResults p,
              do_transforms :=
                (case cp_selectionSet p of
                   Some s \<Rightarrow>
                     if truthy_selectionSet (Some s)
                     then Some [\<lparr>wq_path = [fieldName], wq_wrapper = s, wq_extractor = identical\<rparr>]
                     else None
                 | None \<Rightarrow> None)\<rparr>)
      else
        delegateToSchema
          (commonDelegateOptions
             \<lparr>do_args := Some (cp_args p),
              do_transforms :=
                (case cp_selectionSet p of
                   Some s \<Rightarrow>
                     if truthy_selectionSet (Some s)
                     then Some [\<lparr>wq_path = [fieldName], wq_wrapper = s,
                                 wq_extractor =
                                   (case cp_valuesFromResults p of
                                      Some f \<Rightarrow> f
                                    | None \<Rightarrow> identical)\<rparr>]
                     else None
                 | None \<Rightarrow> None)\<rparr>))"

text \<open>The callable of one root field. It is a plain arrow function: what it throws, it
  throws synchronously. Its debug call to the logger is left out.\<close>

definition inContextCallable ::
  "field_ctx \<Rightarrow> call_params \<Rightarrow> heap \<Rightarrow> delegation_call completion \<times> heap" where
  "inContextCallable fc p h0 =
     (let (info, h1) =
            (case cp_info p of
               Some r \<Rightarrow> (r, h0)
             | None \<Rightarrow> alloc (defaultInfo fc (cp_root p)) h0);
          commonDelegateOptions =
            \<lparr>do_schema = fc_rawSourceSubSchemaConfig fc,
             do_rootValue = cp_root p,
             do_operation = fc_operationType fc,
             do_fieldName = fc_fieldName fc,
             do_context = cp_context p,
             do_transformedSchema = fc_transformedSchema fc,
             do_info = info,
             do_returnType =
               (if is_function (cp_selectionSet p) then None else Some (fc_fieldType fc)),
             do_args = None,
             do_key = None,
             do_argsFromKeys = None,
             do_valuesFromResults = None,
             do_transforms = None\<rparr>
      in if fc_shouldHaveSelectionSet fc
            \<and> selectionCount (ri_fieldNodes (cells h1 info)) = 0
         then
           if \<not> truthy_selectionSet (cp_selectionSet p)
           then (Throws (Error (selectionSetErrorMessage fc)), h1)
           else
             (let (info', h2) = alloc (patchInfo (cells h1 info)) h1
              in (Returns (dispatch p (fc_fieldName fc) (commonDelegateOptions\<lparr>do_info := info'\<rparr>)),
                  h2))
         else (Returns (dispatch p (fc_fieldName fc) commonDelegateOptions), h1))"

text \<open>The resolve-info an invocation works with: the caller's object, or the default
  one.\<close>

definition suppliedInfo :: "field_ctx \<Rightarrow> call_params \<Rightarrow> heap \<Rightarrow> resolve_info" where
  "suppliedInfo fc p h =
     (case cp_info p of
        Some r \<Rightarrow> cells h r
      | None \<Rightarrow> defaultInfo fc (cp_root p))"

text \<open>The closure built for one root field (the body of the inner loop of the SDK
  builder).\<close>

definition mkFieldCtx ::
  "string \<Rightarrow> delegation_target option \<Rightarrow> schema \<Rightarrow> OperationTypeNode \<Rightarrow> string
     \<Rightarrow> string \<times> gql_type \<Rightarrow> field_ctx" where
  "mkFieldCtx rawSourceName rawSourceSubSchemaConfig transformedSchema operationType rootTypeName
      rootTypeField =
     \<lparr>fc_rawSourceName = rawSourceName,
      fc_rawSourceSubSchemaConfig = rawSourceSubSchemaConfig,
      fc_transformedSchema = transformedSchema,
      fc_operationType = operationType,
      fc_rootTypeName = rootTypeName,
      fc_fieldName = fst rootTypeField,
      fc_fieldType = snd rootTypeField,
      fc_namedReturnType = getNamedType (snd rootTypeField),
      fc_shouldHaveSelectionSet = (\<not> isLeafType (getNamedType (snd rootTypeField)))\<rparr>"

section \<open>The source registry\<close>

datatype log_message =
    GettingSubschemas
  | GeneratingTheSchema
  | SchemaGenerated
  | AnalyzingTransforms
  | BareTransformsFound nat
  | FailedToGenerate error

datatype log_entry = LogDebug string log_message | LogError string log_message

record load_state =
  ls_rawSources :: "raw_source list"
  ls_failed :: bool
  ls_logs :: "log_entry list"

text \<open>Modelled from the spec: \<^verbatim>\<open>groupTransforms\<close> (package utils, not among the sources)
  partitions the configured transforms into wrap transforms and no-wrap transforms; no
  configured list gives two empty groups.\<close>

definition groupTransforms :: "transform list option \<Rightarrow> transform list \<times> transform list" where
  "groupTransforms transforms =
     (case transforms of
        None \<Rightarrow> ([], [])
      | Some ts \<Rightarrow> (filter (\<lambda>t. \<not> noWrap t) ts, filter noWrap ts))"

text \<open>The part of a source's callback that runs before its \<^verbatim>\<open>await\<close>: the handler is
  started.\<close>

definition startSource :: "api_source \<Rightarrow> load_state \<Rightarrow> load_state" where
  "startSource apiSource st =
     st\<lparr>ls_logs := ls_logs st @ [LogDebug (as_name apiSource) GeneratingTheSchema]\<rparr>"

text \<open>The outcome of the \<^verbatim>\<open>try\<close> block of a source's callback once its handler gave
  \<open>source\<close>: the record to push, or what \<^verbatim>\<open>applySchemaTransforms\<close> throws when the
  bare transforms are applied. \<^verbatim>\<open>applySchemaTransforms\<close> (package utils) is a parameter;
  it returns a schema or throws.\<close>

definition rawSourceOutput ::
  "(schema \<Rightarrow> mesh_source \<Rightarrow> transform list \<Rightarrow> error + schema) \<Rightarrow> api_source \<Rightarrow> mesh_source
     \<Rightarrow> error + raw_source" where
  "rawSourceOutput applySchemaTransforms apiSource source =
     (let (wrapTransforms, noWrapTransforms) = groupTransforms (as_transforms apiSource);
          bare = (wrapTransforms = [] \<and> noWrapTransforms \<noteq> [])
      in case (if bare
               then applySchemaTransforms (ms_schema source) source noWrapTransforms
               else Inr (ms_schema source)) of
           Inl e \<Rightarrow> Inl e
         | Inr apiSchema \<Rightarrow>
             Inr \<lparr>rs_name = as_name apiSource,
                  rs_schema = apiSchema,
                  rs_executor = ms_executor source,
                  rs_transforms = (if bare then None else as_transforms apiSource),
                  rs_contextVariables =
                    (case ms_contextVariables source of None \<Rightarrow> [] | Some vars \<Rightarrow> vars),
                  rs_handler = as_handler apiSource,
                  rs_batch = (case ms_batch source of None \<Rightarrow> True | Some b \<Rightarrow> b),
                  rs_merge = as_merge apiSource\<rparr>)"

definition transformLogs :: "api_source \<Rightarrow> log_entry list" where
  "transformLogs apiSource =
     (let (wrapTransforms, noWrapTransforms) = groupTransforms (as_transforms apiSource)
      in LogDebug (as_name apiSource) AnalyzingTransforms
         # (if wrapTransforms = [] \<and> noWrapTransforms \<noteq> []
            then [LogDebug (as_name apiSource) (BareTransformsFound (length noWrapTransforms))]
            else []))"

text \<open>The part of the callback that runs when the handler's promise has settled. A
  rejected handler goes to the \<^verbatim>\<open>catch\<close> block at once; a throw of
  \<^verbatim>\<open>applySchemaTransforms\<close> goes there after the debug lines of the \<^verbatim>\<open>try\<close> block.
  Either way the failure is logged and \<^verbatim>\<open>failed\<close> is set.\<close>

definition resumeSource ::
  "(schema \<Rightarrow> mesh_source \<Rightarrow> transform list \<Rightarrow> error + schema) \<Rightarrow> api_source \<Rightarrow> load_state
     \<Rightarrow> load_state" where
  "resumeSource applySchemaTransforms apiSource st =
     (case getMeshSource (as_handler apiSource) of
        Inl e \<Rightarrow>
          st\<lparr>ls_logs := ls_logs st @ [LogError (as_name apiSource) (FailedToGenerate e)],
             ls_failed := True\<rparr>
      | Inr source \<Rightarrow>
          (case rawSourceOutput applySchemaTransforms apiSource source of
             Inl e \<Rightarrow>
               st\<lparr>ls_logs :=
                    ls_logs st @ LogDebug (as_name apiSource) SchemaGenerated # transformLogs apiSource
                    @ [LogError (as_name apiSource) (FailedToGenerate e)],
                  ls_failed := True\<rparr>
           | Inr rawSource \<Rightarrow>
               st\<lparr>ls_logs :=
                    ls_logs st @ LogDebug (as_name apiSource) SchemaGenerated # transformLogs apiSource,
                  ls_rawSources := ls_rawSources st @ [rawSource]\<rparr>))"

definition initialLoadState :: load_state where
  "initialLoadState =
     \<lparr>ls_rawSources = [], ls_failed = False, ls_logs = [LogDebug ''GetMesh'' GettingSubschemas]\<rparr>"

text \<open>
  \<^verbatim>\<open>await Promise.allSettled(sources.map(async apiSource => ...))\<close>. The callbacks are
  started in configuration order; each is resumed when its handler settles. The
  completion order lists the indices of the sources in the order in which their handlers
  settle. A handler that is left out never settles, and then \<^verbatim>\<open>allSettled\<close> never does:
  the result is \<open>None\<close>.
\<close>

definition settleAll ::
  "(schema \<Rightarrow> mesh_source \<Rightarrow> transform list \<Rightarrow> error + schema) \<Rightarrow> api_source list \<Rightarrow> nat list
     \<Rightarrow> load_state \<Rightarrow> load_state" where
  "settleAll applySchemaTransforms sources completionOrder st =
     foldl (\<lambda>st i. if i < length sources
                    then resumeSource applySchemaTransforms (sources ! i) st
                    else st)
       st completionOrder"

definition loadSources ::
  "(schema \<Rightarrow> mesh_source \<Rightarrow> transform list \<Rightarrow> error + schema) \<Rightarrow> api_source list \<Rightarrow> nat list
     \<Rightarrow> load_state option" where
  "loadSources applySchemaTransforms sources completionOrder =
     (let started = foldl (\<lambda>st apiSource. startSource apiSource st) initialLoadState sources;
          settled = settleAll applySchemaTransforms sources completionOrder started
      in if list_all (\<lambda>i. i \<in> set completionOrder) [0..<length sources]
         then Some settled
         else None)"

text \<open>The outcome of the load attempt of one source: the error the \<^verbatim>\<open>catch\<close> block
  receives (from the handler, or from applying the bare transforms), or the record
  pushed.\<close>

definition loadOutcome ::
  "(schema \<Rightarrow> mesh_source \<Rightarrow> transform list \<Rightarrow> error + schema) \<Rightarrow> api_source \<Rightarrow> error + raw_source" where
  "loadOutcome applySchemaTransforms apiSource =
     (case getMeshSource (as_handler apiSource) of
        Inl e \<Rightarrow> Inl e
      | Inr source \<Rightarrow> rawSourceOutput applySchemaTransforms apiSource source)"

text \<open>The last log entry that the callback of a source writes when its load attempt
  ends without a record pushed, and the entry it writes when the handler has resolved
  and the record is pushed.\<close>

definition completionEntry ::
  "(schema \<Rightarrow> mesh_source \<Rightarrow> transform list \<Rightarrow> error + schema) \<Rightarrow> api_source \<Rightarrow> log_entry" where
  "completionEntry applySchemaTransforms apiSource =
     (case loadOutcome applySchemaTransforms apiSource of
        Inl e \<Rightarrow> LogError (as_name apiSource) (FailedToGenerate e)
      | Inr rawSource \<Rightarrow> LogDebug (as_name apiSource) SchemaGenerated)"

definition schemasError :: error where
  "schemasError =
     Error (''Schemas couldn'' @ [CHR 0x27]
            @ ''t be generated successfully. Check for the logs by running Mesh with DEBUG=1 environmental variable to get more verbose output.'')"

section \<open>The unified schema and the in-context SDK\<close>

record unified_schema =
  us_sourceMap :: "(string \<times> schema) list"
  us_stitchingInfo :: "(subschema_config \<times> subschema_config) list option"
  us_oneOf :: bool

text \<open>The loop over \<^verbatim>\<open>stitchingInfo.subschemaMap\<close>: the subschema of the first entry whose
  config has the raw source's name; \<open>None\<close> is the variable left \<^verbatim>\<open>undefined\<close>.\<close>

fun findSubschema ::
  "(subschema_config \<times> subschema_config) list \<Rightarrow> string \<Rightarrow> subschema_config option" where
  "findSubschema [] name = None"
| "findSubschema ((subschemaConfig, subschema) # rest) name =
     (if sc_name subschemaConfig = Some name then Some subschema else findSubschema rest name)"

definition resolveSubSchemaConfig :: "unified_schema \<Rightarrow> raw_source \<Rightarrow> delegation_target option" where
  "resolveSubSchemaConfig unifiedSchema rawSource =
     (case us_stitchingInfo unifiedSchema of
        Some subschemaMap \<Rightarrow> map_option Subschema (findSubschema subschemaMap (rs_name rawSource))
      | None \<Rightarrow> Some (RawSource rawSource))"

definition rootTypes :: "schema \<Rightarrow> (OperationTypeNode \<times> object_type option) list" where
  "rootTypes transformedSchema =
     [(OpQuery, queryType transformedSchema),
      (OpMutation, mutationType transformedSchema),
      (OpSubscription, subscriptionType transformedSchema)]"

text \<open>The SDK of one raw source: for each root type that exists, its name and one
  callable per field. The source map is keyed by the raw source, here by its name (the
  unique key of a source). A raw source without an entry makes
  \<^verbatim>\<open>transformedSchema.getQueryType()\<close> a TypeError.\<close>

definition buildRawSourceContext ::
  "unified_schema \<Rightarrow> raw_source \<Rightarrow> error + (string \<times> (string \<times> field_ctx) list) list" where
  "buildRawSourceContext unifiedSchema rawSource =
     (let rawSourceSubSchemaConfig = resolveSubSchemaConfig unifiedSchema rawSource
      in case map_of (us_sourceMap unifiedSchema) (rs_name rawSource) of
           None \<Rightarrow> Inl (TypeError ''Cannot read properties of undefined'')
         | Some transformedSchema \<Rightarrow>
             Inr (concat
                   (map (\<lambda>(operationType, rootType).
                           case rootType of
                             None \<Rightarrow> []
                           | Some rt \<Rightarrow>
                               [(ot_name rt,
                                 map (\<lambda>rootTypeField.
                                        (fst rootTypeField,
                                         mkFieldCtx (rs_name rawSource) rawSourceSubSchemaConfig
                                           transformedSchema operationType (ot_name rt) rootTypeField))
                                   (ot_fields rt))])
                      (rootTypes transformedSchema))))"

fun buildMeshContext ::
  "unified_schema \<Rightarrow> raw_source list
     \<Rightarrow> error + (string \<times> (string \<times> (string \<times> field_ctx) list) list) list" where
  "buildMeshContext unifiedSchema [] = Inr []"
| "buildMeshContext unifiedSchema (rawSource # rest) =
     (case buildRawSourceContext unifiedSchema rawSource of
        Inl e \<Rightarrow> Inl e
      | Inr rawSourceContext \<Rightarrow>
          (case buildMeshContext unifiedSchema rest of
             Inl e \<Rightarrow> Inl e
           | Inr meshContext \<Rightarrow> Inr ((rs_name rawSource, rawSourceContext) # meshContext)))"

text \<open>Reading a property of an object that was filled by assignments in list order:
  the last assignment to a key is the one read.\<close>

definition lookupProperty :: "(string \<times> 'a) list \<Rightarrow> string \<Rightarrow> 'a option" where
  "lookupProperty properties k = map_of (rev properties) k"

record mesh_instance =
  mi_schema :: unified_schema
  mi_rawSources :: "raw_source list"
  mi_meshContext :: "(string \<times> (string \<times> (string \<times> field_ctx) list) list) list"

text \<open>What follows the registry: the merger (external, a parameter) and the SDK
  builder.\<close>

definition afterRegistry ::
  "(raw_source list \<Rightarrow> error + unified_schema) \<Rightarrow> raw_source list \<Rightarrow> mesh_instance promise" where
  "afterRegistry merger rawSources =
     (case merger rawSources of
        Inl e \<Rightarrow> Rejected e
      | Inr unifiedSchema \<Rightarrow>
          (case buildMeshContext unifiedSchema rawSources of
             Inl e \<Rightarrow> Rejected e
           | Inr meshContext \<Rightarrow>
               Fulfilled \<lparr>mi_schema = unifiedSchema, mi_rawSources = rawSources,
                          mi_meshContext = meshContext\<rparr>))"

text \<open>\<^verbatim>\<open>getMesh\<close>: the promise it returns, with the log written while the sources were
  loaded; \<open>None\<close> when it never settles.\<close>

definition getMesh ::
  "(schema \<Rightarrow> mesh_source \<Rightarrow> transform list \<Rightarrow> error + schema)
     \<Rightarrow> (raw_source list \<Rightarrow> error + unified_schema)
     \<Rightarrow> api_source list \<Rightarrow> nat list \<Rightarrow> (mesh_instance promise \<times> log_entry list) option" where
  "getMesh applySchemaTransforms merger sources completionOrder =
     (case loadSources applySchemaTransforms sources completionOrder of
        None \<Rightarrow> None
      | Some st \<Rightarrow>
          Some (if ls_failed st
                then Rejected schemasError
                else afterRegistry merger (ls_rawSources st),
                ls_logs st))"

section \<open>The execution pipeline\<close>

datatype definition_node =
    OperationDefinition OperationTypeNode "string option"
  | FragmentDefinition string

type_synonym document = "definition_node list"

text \<open>\<^verbatim>\<open>getOperationAST(document, undefined)\<close> of graphql-js: with no operation name, the
  only operation definition of the document; \<^verbatim>\<open>null\<close> once a second one is met, or when
  there is none.\<close>

type_synonym operation_definition = "OperationTypeNode \<times> string option"

fun getOperationAST_loop ::
  "definition_node list \<Rightarrow> operation_definition option \<Rightarrow> operation_definition option" where
  "getOperationAST_loop [] operation = operation"
| "getOperationAST_loop (FragmentDefinition n # rest) operation = getOperationAST_loop rest operation"
| "getOperationAST_loop (OperationDefinition k n # rest) operation =
     (case operation of
        Some previous \<Rightarrow> None
      | None \<Rightarrow> getOperationAST_loop rest (Some (k, n)))"

definition getOperationAST :: "document \<Rightarrow> operation_definition option" where
  "getOperationAST document = getOperationAST_loop document None"

definition getOperationType :: "document \<Rightarrow> error + OperationTypeNode" where
  "getOperationType document =
     (case getOperationAST document of
        None \<Rightarrow> Inl (Error ''Must provide document with a valid operation'')
      | Some operationAST \<Rightarrow> Inr (fst operationAST))"

text \<open>A bound pipeline, the object \<^verbatim>\<open>getEnveloped(initialContext)\<close> returns: its own
  identity, the plugin list it was built from and the context object it is bound to.\<close>

record pipeline =
  pl_id :: ref
  pl_plugins :: ref
  pl_initialContext :: ref

record execution_args =
  ea_document :: document
  ea_contextValue :: jsval
  ea_rootValue :: jsval
  ea_variableValues :: jsval
  ea_operationName :: "string option"

datatype entry_point = ViaExecute | ViaSubscribe

record pipeline_call =
  pc_entry :: entry_point
  pc_pipeline :: pipeline
  pc_args :: execution_args

text \<open>
  \<^verbatim>\<open>memoize1\<close> (graphql-tools) keeps a WeakMap of its own: it looks its one argument up by
  identity, and on a miss calls the function and stores what it returns; a call that
  throws stores nothing.

  The function \<^verbatim>\<open>getEnvelopedFactory\<close> returns for a plugin list is a new closure
  \<^verbatim>\<open>getEnvelopedByContext\<close>: it holds \<^verbatim>\<open>getEnveloped = envelop({ plugins })\<close> and the
  WeakMap of its own \<^verbatim>\<open>memoize1\<close>, from context objects to pipelines. Nothing but the
  outer \<^verbatim>\<open>memoize1\<close> keeps these closures.
\<close>

record byContext =
  bc_plugins :: ref
  bc_cache :: "ref \<rightharpoonup> pipeline"

text \<open>
  The state the module keeps: the WeakMap of \<^verbatim>\<open>memoizedGetOperationType\<close>, the WeakMap
  of \<^verbatim>\<open>memoizedGetEnvelopedFactory\<close> (from plugin lists to closures), the closures by
  their identities, a counter for the identities of new objects, and the calls made to
  the pipelines' \<^verbatim>\<open>execute\<close> and \<^verbatim>\<open>subscribe\<close>.
\<close>

record runtime =
  rt_operationTypes :: "ref \<rightharpoonup> OperationTypeNode"
  rt_factories :: "ref \<rightharpoonup> ref"
  rt_closures :: "ref \<Rightarrow> byContext"
  rt_next :: ref
  rt_calls :: "pipeline_call list"

definition initialRuntime :: runtime where
  "initialRuntime =
     \<lparr>rt_operationTypes = Map.empty,
      rt_factories = Map.empty,
      rt_closures = (\<lambda>f. \<lparr>bc_plugins = 0, bc_cache = Map.empty\<rparr>),
      rt_next = 0,
      rt_calls = []\<rparr>"

definition memoizedGetOperationType ::
  "ref \<times> document \<Rightarrow> runtime \<Rightarrow> (error + OperationTypeNode) \<times> runtime" where
  "memoizedGetOperationType document rt =
     (case rt_operationTypes rt (fst document) of
        Some cachedValue \<Rightarrow> (Inr cachedValue, rt)
      | None \<Rightarrow>
          (case getOperationType (snd document) of
             Inl e \<Rightarrow> (Inl e, rt)
           | Inr newValue \<Rightarrow>
               (Inr newValue,
                rt\<lparr>rt_operationTypes := (rt_operationTypes rt)(fst document \<mapsto> newValue)\<rparr>)))"

text \<open>\<^verbatim>\<open>getEnvelopedFactory(plugins)\<close>: a new closure with an empty cache; it takes the next
  identity.\<close>

definition getEnvelopedFactory :: "ref \<Rightarrow> runtime \<Rightarrow> ref \<times> runtime" where
  "getEnvelopedFactory plugins rt =
     (rt_next rt,
      rt\<lparr>rt_closures := (rt_closures rt)(rt_next rt := \<lparr>bc_plugins = plugins, bc_cache = Map.empty\<rparr>),
         rt_next := Suc (rt_next rt)\<rparr>)"

text \<open>\<^verbatim>\<open>memoizedGetEnvelopedFactory(plugins)\<close>: the closure stored for the plugin list, or
  a new one, which is then stored.\<close>

definition memoizedGetEnvelopedFactory :: "ref \<Rightarrow> runtime \<Rightarrow> ref \<times> runtime" where
  "memoizedGetEnvelopedFactory plugins rt =
     (case rt_factories rt plugins of
        Some cachedValue \<Rightarrow> (cachedValue, rt)
      | None \<Rightarrow>
          (let (newValue, rt1) = getEnvelopedFactory plugins rt
           in (newValue, rt1\<lparr>rt_factories := (rt_factories rt1)(plugins \<mapsto> newValue)\<rparr>)))"

text \<open>\<^verbatim>\<open>getEnveloped(initialContext)\<close> of envelop builds a new pipeline object from the
  plugin list it was made with; it takes the next identity.\<close>

definition newPipeline :: "ref \<Rightarrow> ref \<Rightarrow> runtime \<Rightarrow> pipeline" where
  "newPipeline plugins initialContext rt =
     \<lparr>pl_id = rt_next rt, pl_plugins = plugins, pl_initialContext = initialContext\<rparr>"

text \<open>A call of the closure \<open>f\<close>: its own cache is looked up and, on a miss, filled.\<close>

definition getEnvelopedByContext :: "ref \<Rightarrow> ref \<Rightarrow> runtime \<Rightarrow> pipeline \<times> runtime" where
  "getEnvelopedByContext f initialContext rt =
     (let closure = rt_closures rt f
      in case bc_cache closure initialContext of
           Some cachedValue \<Rightarrow> (cachedValue, rt)
         | None \<Rightarrow>
             (let newValue = newPipeline (bc_plugins closure) initialContext rt
              in (newValue,
                  rt\<lparr>rt_closures :=
                       (rt_closures rt)
                         (f := closure\<lparr>bc_cache := (bc_cache closure)(initialContext \<mapsto> newValue)\<rparr>),
                     rt_next := Suc (rt_next rt)\<rparr>)))"

text \<open>The first two lines of \<^verbatim>\<open>meshExecute\<close> and of \<^verbatim>\<open>meshSubscribe\<close>:
  \<^verbatim>\<open>memoizedGetEnvelopedFactory(plugins)(contextValue)\<close>.\<close>

definition getEnveloped :: "ref \<Rightarrow> ref \<Rightarrow> runtime \<Rightarrow> pipeline \<times> runtime" where
  "getEnveloped plugins contextValue rt =
     (let (f, rt1) = memoizedGetEnvelopedFactory plugins rt
      in getEnvelopedByContext f contextValue rt1)"

text \<open>The outcome of a subscription: one result, or the results an async iterable
  emits.\<close>

record execution_result =
  er_data :: jsval
  er_errors :: "string list option"

datatype subscription_result =
    SingleResult "execution_result option"
  | AsyncIterable "execution_result option list"

text \<open>One gateway: the identity of its plugin list and of its
  \<^verbatim>\<open>EMPTY_CONTEXT_VALUE\<close>, and the external functions of its pipelines.\<close>

record gateway =
  g_plugins :: ref
  g_EMPTY_CONTEXT_VALUE :: "ref \<times> jsval"
  g_parse :: "string \<Rightarrow> error + document"
  g_contextFactory :: "pipeline \<Rightarrow> jsval \<Rightarrow> jsval"
  g_execute :: "pipeline \<Rightarrow> execution_args \<Rightarrow> execution_result option promise"
  g_subscribe :: "pipeline \<Rightarrow> execution_args \<Rightarrow> subscription_result promise"

datatype GraphQLOperation = DocumentNode document | SDL string

definition executionArgs ::
  "gateway \<Rightarrow> pipeline \<Rightarrow> document \<Rightarrow> jsval option \<Rightarrow> ref \<times> jsval \<Rightarrow> jsval option \<Rightarrow> string option
     \<Rightarrow> execution_args" where
  "executionArgs g p document variableValues contextValue rootValue operationName =
     \<lparr>ea_document = document,
      ea_contextValue = g_contextFactory g p (snd contextValue),
      ea_rootValue = (case rootValue of None \<Rightarrow> JObj [] | Some r \<Rightarrow> r),
      ea_variableValues = (case variableValues of None \<Rightarrow> JObj [] | Some v \<Rightarrow> v),
      ea_operationName = operationName\<rparr>"

definition meshExecute ::
  "gateway \<Rightarrow> GraphQLOperation \<Rightarrow> jsval option \<Rightarrow> (ref \<times> jsval) option \<Rightarrow> jsval option
     \<Rightarrow> string option \<Rightarrow> runtime \<Rightarrow> execution_result option promise \<times> runtime" where
  "meshExecute g documentOrSDL variableValues contextValue rootValue operationName rt =
     (let context = (case contextValue of None \<Rightarrow> g_EMPTY_CONTEXT_VALUE g | Some c \<Rightarrow> c);
          (p, rt1) = getEnveloped (g_plugins g) (fst context) rt
      in case (case documentOrSDL of DocumentNode d \<Rightarrow> Inr d | SDL text \<Rightarrow> g_parse g text) of
           Inl e \<Rightarrow> (Rejected e, rt1)
         | Inr document \<Rightarrow>
             (let args = executionArgs g p document variableValues context rootValue operationName
              in (g_execute g p args,
                  rt1\<lparr>rt_calls :=
                        rt_calls rt1 @ [\<lparr>pc_entry = ViaExecute, pc_pipeline = p, pc_args = args\<rparr>]\<rparr>)))"

definition meshSubscribe ::
  "gateway \<Rightarrow> GraphQLOperation \<Rightarrow> jsval option \<Rightarrow> (ref \<times> jsval) option \<Rightarrow> jsval option
     \<Rightarrow> string option \<Rightarrow> runtime \<Rightarrow> subscription_result promise \<times> runtime" where
  "meshSubscribe g documentOrSDL variableValues contextValue rootValue operationName rt =
     (let context = (case contextValue of None \<Rightarrow> g_EMPTY_CONTEXT_VALUE g | Some c \<Rightarrow> c);
          (p, rt1) = getEnveloped (g_plugins g) (fst context) rt
      in case (case documentOrSDL of DocumentNode d \<Rightarrow> Inr d | SDL text \<Rightarrow> g_parse g text) of
           Inl e \<Rightarrow> (Rejected e, rt1)
         | Inr document \<Rightarrow>
             (let args = executionArgs g p document variableValues context rootValue operationName
              in (g_subscribe g p args,
                  rt1\<lparr>rt_calls :=
                        rt_calls rt1 @ [\<lparr>pc_entry = ViaSubscribe, pc_pipeline = p, pc_args = args\<rparr>]\<rparr>)))"

section \<open>The requester\<close>

datatype collapsed = Data jsval | AggregateError "string list"

datatype requester_value = Single collapsed | MappedAsyncIterator "collapsed list"

text \<open>\<^verbatim>\<open>result?.errors?.length ? new AggregateError(result.errors) : result?.data\<close>.\<close>

definition collapse :: "execution_result option \<Rightarrow> collapsed" where
  "collapse result =
     (case result of
        None \<Rightarrow> Data Undefined
      | Some r \<Rightarrow>
          (case er_errors r of
             None \<Rightarrow> Data (er_data r)
           | Some errors \<Rightarrow> if length errors \<noteq> 0 then AggregateError errors else Data (er_data r)))"

fun ownProperties :: "jsval \<Rightarrow> (string \<times> jsval) list" where
  "ownProperties (JObj properties) = properties"
| "ownProperties v = []"

fun setProperty :: "(string \<times> jsval) list \<Rightarrow> string \<times> jsval \<Rightarrow> (string \<times> jsval) list" where
  "setProperty [] kv = [kv]"
| "setProperty (p # ps) kv = (if fst p = fst kv then kv # ps else p # setProperty ps kv)"

text \<open>\<^verbatim>\<open>{ ...globalContext, ...contextValue }\<close>: the later value of a key wins.\<close>

definition spread :: "jsval \<Rightarrow> jsval \<Rightarrow> jsval" where
  "spread a b = JObj (foldl setProperty [] (ownProperties a @ ownProperties b))"

text \<open>A new context object: it takes the next identity.\<close>

definition newContext :: "jsval \<Rightarrow> runtime \<Rightarrow> (ref \<times> jsval) \<times> runtime" where
  "newContext properties rt = ((rt_next rt, properties), rt\<lparr>rt_next := Suc (rt_next rt)\<rparr>)"

definition meshSdkRequester ::
  "gateway \<Rightarrow> jsval \<Rightarrow> ref \<times> document \<Rightarrow> jsval option \<Rightarrow> jsval \<Rightarrow> runtime
     \<Rightarrow> requester_value promise completion \<times> runtime" where
  "meshSdkRequester g globalContext document variables contextValue rt =
     (case memoizedGetOperationType document rt of
        (Inl e, rt1) \<Rightarrow> (async (Inl e), rt1)
      | (Inr operationType, rt1) \<Rightarrow>
          (let (context, rt2) = newContext (spread globalContext contextValue) rt1
           in if operationType = OpSubscription
              then
                (case meshSubscribe g (DocumentNode (snd document)) variables (Some context) None None rt2 of
                   (Rejected e, rt3) \<Rightarrow> (async (Inl e), rt3)
                 | (Fulfilled (AsyncIterable results), rt3) \<Rightarrow>
                     (async (Inr (MappedAsyncIterator (map collapse results))), rt3)
                 | (Fulfilled (SingleResult result), rt3) \<Rightarrow>
                     (async (Inr (Single (collapse result))), rt3))
              else
                (case meshExecute g (DocumentNode (snd document)) variables (Some context) None None rt2 of
                   (Rejected e, rt3) \<Rightarrow> (async (Inl e), rt3)
                 | (Fulfilled result, rt3) \<Rightarrow> (async (Inr (Single (collapse result))), rt3))))"

section \<open>Sequences of calls\<close>

text \<open>One call of \<^verbatim>\<open>execute\<close> or \<^verbatim>\<open>subscribe\<close> of a gateway, with a document node.\<close>

record mesh_request =
  mr_gateway :: gateway
  mr_entry :: entry_point
  mr_document :: document
  mr_variableValues :: "jsval option"
  mr_contextValue :: "(ref \<times> jsval) option"
  mr_rootValue :: "jsval option"
  mr_operationName :: "string option"

definition meshCall :: "mesh_request \<Rightarrow> runtime \<Rightarrow> runtime" where
  "meshCall rq rt =
     (case mr_entry rq of
        ViaExecute \<Rightarrow>
          snd (meshExecute (mr_gateway rq) (DocumentNode (mr_document rq)) (mr_variableValues rq)
                 (mr_contextValue rq) (mr_rootValue rq) (mr_operationName rq) rt)
      | ViaSubscribe \<Rightarrow>
          snd (meshSubscribe (mr_gateway rq) (DocumentNode (mr_document rq)) (mr_variableValues rq)
                 (mr_contextValue rq) (mr_rootValue rq) (mr_operationName rq) rt))"

definition meshCalls :: "mesh_request list \<Rightarrow> runtime \<Rightarrow> runtime" where
  "meshCalls requests rt = foldl (\<lambda>rt rq. meshCall rq rt) rt requests"

text \<open>The identity of the context value a call is made with: the caller's object, or
  the gateway's \<^verbatim>\<open>EMPTY_CONTEXT_VALUE\<close>.\<close>

definition contextIdentity :: "mesh_request \<Rightarrow> ref" where
  "contextIdentity rq =
     (case mr_contextValue rq of
        None \<Rightarrow> fst (g_EMPTY_CONTEXT_VALUE (mr_gateway rq))
      | Some c \<Rightarrow> fst c)"

text \<open>A call served for a request: made through the request's entry point to a pipeline
  built from the gateway's plugin list and bound to the context object of the request,
  with the request's document, root value, variables and operation name, and with the
  context the pipeline's own context factory makes of the request's context value.\<close>

definition servedBy :: "mesh_request \<Rightarrow> pipeline_call \<Rightarrow> bool" where
  "servedBy rq call =
     (pc_entry call = mr_entry rq
      \<and> pl_plugins (pc_pipeline call) = g_plugins (mr_gateway rq)
      \<and> pl_initialContext (pc_pipeline call) = contextIdentity rq
      \<and> pc_args call
          = \<lparr>ea_document = mr_document rq,
             ea_contextValue =
               g_contextFactory (mr_gateway rq) (pc_pipeline call)
                 (snd (case mr_contextValue rq of
                         None \<Rightarrow> g_EMPTY_CONTEXT_VALUE (mr_gateway rq) | Some c \<Rightarrow> c)),
             ea_rootValue = (case mr_rootValue rq of None \<Rightarrow> JObj [] | Some x \<Rightarrow> x),
             ea_variableValues = (case mr_variableValues rq of None \<Rightarrow> JObj [] | Some x \<Rightarrow> x),
             ea_operationName = mr_operationName rq\<rparr>)"

text \<open>The pipeline cached for a plugin list and a context object: the entry of the
  context in the cache of the closure stored for the plugin list.\<close>

definition cached :: "runtime \<Rightarrow> ref \<Rightarrow> ref \<Rightarrow> pipeline option" where
  "cached rt plugins contextValue =
     (case rt_factories rt plugins of
        None \<Rightarrow> None
      | Some f \<Rightarrow> bc_cache (rt_closures rt f) contextValue)"

text \<open>What holds of the caches after any sequence of calls: the closure stored for a
  plugin list was built for it, before now; a cached pipeline was built for its key,
  before now; two cached pipelines of one identity are one entry; and every pipeline that
  served a call is the one cached for its key.\<close>

definition runtime_inv :: "runtime \<Rightarrow> bool" where
  "runtime_inv rt =
     ((\<forall>pl f. rt_factories rt pl = Some f \<longrightarrow>
          f < rt_next rt \<and> bc_plugins (rt_closures rt f) = pl)
      \<and> (\<forall>pl c p. cached rt pl c = Some p \<longrightarrow>
          pl_id p < rt_next rt \<and> pl_plugins p = pl \<and> pl_initialContext p = c)
      \<and> (\<forall>pl c p pl' c' p'.
            cached rt pl c = Some p \<and> cached rt pl' c' = Some p' \<and> pl_id p = pl_id p' \<longrightarrow>
            pl = pl' \<and> c = c')
      \<and> (\<forall>call\<in>set (rt_calls rt).
            cached rt (pl_plugins (pc_pipeline call)) (pl_initialContext (pc_pipeline call))
              = Some (pc_pipeline call)))"

fun isOperationDefinition :: "definition_node \<Rightarrow> bool" where
  "isOperationDefinition (OperationDefinition k n) = True"
| "isOperationDefinition (FragmentDefinition n) = False"

section \<open>Concrete inputs\<close>

definition ex_schema :: schema where
  "ex_schema =
     \<lparr>queryType =
        Some \<lparr>ot_name = ''Query'',
              ot_fields = [(''user'', NamedType ''User'' ObjectKind),
                           (''version'', NamedType ''String'' ScalarKind)]\<rparr>,
      mutationType = None,
      subscriptionType = None\<rparr>"

definition ex_user :: field_ctx where
  "ex_user = mkFieldCtx ''Src'' None ex_schema OpQuery ''Query'' (''user'', NamedType ''User'' ObjectKind)"

definition ex_heap :: heap where
  "ex_heap = \<lparr>cells = (\<lambda>r. defaultInfo ex_user Undefined), nxt = 0\<rparr>"

definition ex_params :: call_params where
  "ex_params =
     \<lparr>cp_root = Undefined,
      cp_args = JObj [(''id'', JNum 1)],
      cp_context = JObj [],
      cp_info = None,
      cp_selectionSet = None,
      cp_key = None,
      cp_argsFromKeys = None,
      cp_valuesFromResults = None\<rparr>"

definition ex_argsFromKeys :: "string list \<Rightarrow> jsval" where
  "ex_argsFromKeys keys = JObj [(''ids'', JStr (concat keys))]"

definition ex_selected :: call_params where
  "ex_selected = ex_params\<lparr>cp_selectionSet := Some (Param (SelString ''{ id }''))\<rparr>"

definition ex_batched :: call_params where
  "ex_batched = ex_selected\<lparr>cp_key := Some ''a'', cp_argsFromKeys := Some ex_argsFromKeys\<rparr>"

definition ex_emptyKey :: call_params where
  "ex_emptyKey = ex_selected\<lparr>cp_key := Some [], cp_argsFromKeys := Some ex_argsFromKeys\<rparr>"

definition ex_meshSource :: mesh_source where
  "ex_meshSource =
     \<lparr>ms_schema = ex_schema, ms_executor = Executor ''http'', ms_contextVariables = None,
      ms_batch = None\<rparr>"

definition ex_rawSource :: raw_source where
  "ex_rawSource =
     \<lparr>rs_name = ''Src'', rs_schema = ex_schema, rs_executor = Executor ''http'',
      rs_transforms = None, rs_contextVariables = [], rs_handler = Handler (Inr ex_meshSource),
      rs_batch = True, rs_merge = None\<rparr>"

text \<open>A unified schema whose stitching info has one subschema config, of another
  name.\<close>

definition ex_stitched :: unified_schema where
  "ex_stitched =
     \<lparr>us_sourceMap = [(''Src'', ex_schema)],
      us_stitchingInfo =
        Some [(\<lparr>sc_name = Some ''Other'', sc_schema = ex_schema, sc_executor = Executor ''http''\<rparr>,
               \<lparr>sc_name = Some ''Other'', sc_schema = ex_schema, sc_executor = Executor ''http''\<rparr>)],
      us_oneOf = False\<rparr>"

text \<open>A caller's resolve-info with two field nodes and no selection, at reference 0.\<close>

definition ex_info :: resolve_info where
  "ex_info = (defaultInfo ex_user Undefined)\<lparr>ri_fieldNodes :=
      [\<lparr>fn_name = Some ''user'', fn_selectionSet = None\<rparr>,
       \<lparr>fn_name = Some ''user'', fn_selectionSet = Some []\<rparr>]\<rparr>"

definition ex_heap1 :: heap where
  "ex_heap1 = \<lparr>cells = (\<lambda>r. ex_info), nxt = 1\<rparr>"

definition ex_sourceA :: api_source where
  "ex_sourceA =
     \<lparr>as_name = ''A'', as_handler = Handler (Inr ex_meshSource), as_transforms = None,
      as_merge = None\<rparr>"

definition ex_sourceB :: api_source where
  "ex_sourceB =
     \<lparr>as_name = ''B'', as_handler = Handler (Inr ex_meshSource), as_transforms = None,
      as_merge = None\<rparr>"

definition ex_failing :: api_source where
  "ex_failing =
     \<lparr>as_name = ''F'', as_handler = Handler (Inl (Error ''unreachable'')), as_transforms = None,
      as_merge = None\<rparr>"

definition ex_apply :: "schema \<Rightarrow> mesh_source \<Rightarrow> transform list \<Rightarrow> error + schema" where
  "ex_apply originalSchema source transforms = Inr originalSchema"

text \<open>A source whose handler succeeds and whose one transform is a bare transform, and an
  \<^verbatim>\<open>applySchemaTransforms\<close> that throws.\<close>

definition ex_bare :: api_source where
  "ex_bare =
     \<lparr>as_name = ''T'', as_handler = Handler (Inr ex_meshSource),
      as_transforms = Some [\<lparr>t_name = ''rename'', noWrap = True\<rparr>], as_merge = None\<rparr>"

definition ex_throwingApply :: "schema \<Rightarrow> mesh_source \<Rightarrow> transform list \<Rightarrow> error + schema" where
  "ex_throwingApply originalSchema source transforms = Inl (Error ''transform failed'')"

definition ex_merger :: "raw_source list \<Rightarrow> error + unified_schema" where
  "ex_merger rawSources =
     Inr \<lparr>us_sourceMap = map (\<lambda>rawSource. (rs_name rawSource, rs_schema rawSource)) rawSources,
          us_stitchingInfo = None,
          us_oneOf = False\<rparr>"

text \<open>A gateway whose pipelines answer every execution with one result and every
  subscription with three results: data, errors beside data, and no result object.\<close>

definition ex_results :: "execution_result option list" where
  "ex_results =
     [Some \<lparr>er_data = JNum 1, er_errors = None\<rparr>,
      Some \<lparr>er_data = JNum 2, er_errors = Some [''upstream failed'']\<rparr>,
      None]"

definition ex_gateway :: gateway where
  "ex_gateway =
     \<lparr>g_plugins = 100,
      g_EMPTY_CONTEXT_VALUE = (101, JObj []),
      g_parse = (\<lambda>text. Inl (Error ''Syntax Error'')),
      g_contextFactory = (\<lambda>p initialContext. initialContext),
      g_execute = (\<lambda>p args. Fulfilled (Some \<lparr>er_data = JNum 2, er_errors = Some [''upstream failed'']\<rparr>)),
      g_subscribe = (\<lambda>p args. Fulfilled (AsyncIterable ex_results))\<rparr>"

definition ex_request :: "entry_point \<Rightarrow> (ref \<times> jsval) option \<Rightarrow> mesh_request" where
  "ex_request entry contextValue =
     \<lparr>mr_gateway = ex_gateway,
      mr_entry = entry,
      mr_document = [OperationDefinition OpQuery None],
      mr_variableValues = None,
      mr_contextValue = contextValue,
      mr_rootValue = None,
      mr_operationName = None\<rparr>"

text \<open>Three calls: the first and the third with the same context object, the second
  with another object of the same value.\<close>

definition ex_requests :: "mesh_request list" where
  "ex_requests =
     [ex_request ViaExecute (Some (5, JObj [(''user'', JStr ''ann'')])),
      ex_request ViaSubscribe (Some (6, JObj [(''user'', JStr ''ann'')])),
      ex_request ViaExecute (Some (5, JObj [(''user'', JStr ''ann'')]))]"

section \<open>Properties of the in-context callable\<close>

lemma selectionCount_Nil: "selectionCount [] = 0"
  by (simp add: selectionCount_def)

text \<open>What the callable does, case by case.\<close>

lemma callable_throws:
  assumes "fc_shouldHaveSelectionSet fc"
      and "case cp_info p of None \<Rightarrow> True | Some r \<Rightarrow> selectionCount (ri_fieldNodes (cells h r)) = 0"
      and "\<not> truthy_selectionSet (cp_selectionSet p)"
  shows "fst (inContextCallable fc p h) = Throws (Error (selectionSetErrorMessage fc))"
  using assms
  by (cases "cp_info p")
     (simp_all add: inContextCallable_def alloc_def defaultInfo_def selectionCount_Nil)

lemma callable_returns:
  assumes "truthy_selectionSet (cp_selectionSet p) \<or> \<not> fc_shouldHaveSelectionSet fc"
  shows "\<exists>call. fst (inContextCallable fc p h) = Returns call"
  using assms
  by (cases "cp_info p") (auto simp add: inContextCallable_def alloc_def Let_def split: prod.splits)

lemma callable_call:
  assumes "inContextCallable fc p h = (Returns call, h')"
  shows "\<exists>common. call = dispatch p (fc_fieldName fc) common
           \<and> do_schema common = fc_rawSourceSubSchemaConfig fc
           \<and> do_returnType common = (if is_function (cp_selectionSet p) then None else Some (fc_fieldType fc))
           \<and> do_args common = None"
  using assms
  by (cases "cp_info p")
     (auto simp add: inContextCallable_def alloc_def Let_def split: prod.splits if_splits)

lemma dispatch_opts:
  "do_schema (opts (dispatch p f common)) = do_schema common"
  "do_returnType (opts (dispatch p f common)) = do_returnType common"
  "do_info (opts (dispatch p f common)) = do_info common"
  by (simp_all add: dispatch_def)

lemma dispatch_batch:
  assumes "truthy_key (cp_key p) \<and> cp_argsFromKeys p \<noteq> None"
  shows "dispatch p f common = batchDelegateToSchema (opts (dispatch p f common))"
    and "do_key (opts (dispatch p f common)) = cp_key p"
    and "do_argsFromKeys (opts (dispatch p f common)) = cp_argsFromKeys p"
    and "do_valuesFromResults (opts (dispatch p f common)) = cp_valuesFromResults p"
  using assms by (simp_all add: dispatch_def)

lemma dispatch_single:
  assumes "\<not> (truthy_key (cp_key p) \<and> cp_argsFromKeys p \<noteq> None)"
  shows "dispatch p f common = delegateToSchema (opts (dispatch p f common))"
    and "do_args (opts (dispatch p f common)) = Some (cp_args p)"
  using assms by (auto simp add: dispatch_def)

lemma callable_patched:
  assumes "fc_shouldHaveSelectionSet fc"
      and "selectionCount (ri_fieldNodes (suppliedInfo fc p h)) = 0"
      and "inContextCallable fc p h = (Returns call, h')"
  shows "cells h' (do_info (opts call)) = patchInfo (suppliedInfo fc p h)
         \<and> (\<forall>r<nxt h. cells h' r = cells h r)
         \<and> nxt h \<le> do_info (opts call)"
  using assms
  by (cases "cp_info p")
     (auto simp add: inContextCallable_def suppliedInfo_def alloc_def Let_def dispatch_opts
           split: prod.splits if_splits)

lemma patchInfo_nodes:
  "fn_selectionSet (hd (ri_fieldNodes (patchInfo info))) = Some typenameSelections"
  "tl (ri_fieldNodes (patchInfo info)) = tl (ri_fieldNodes info)"
  "patchInfo info = info\<lparr>ri_fieldNodes := ri_fieldNodes (patchInfo info)\<rparr>"
  by (simp_all add: patchInfo_def patchedFieldNodes_def split: list.splits)

lemma mkFieldCtx_simps:
  "fc_rawSourceName (mkFieldCtx src target sch ot rt f) = src"
  "fc_rawSourceSubSchemaConfig (mkFieldCtx src target sch ot rt f) = target"
  "fc_rootTypeName (mkFieldCtx src target sch ot rt f) = rt"
  "fc_fieldName (mkFieldCtx src target sch ot rt f) = fst f"
  "fc_fieldType (mkFieldCtx src target sch ot rt f) = snd f"
  "fc_shouldHaveSelectionSet (mkFieldCtx src target sch ot rt f) = (\<not> isLeafType (getNamedType (snd f)))"
  by (simp_all add: mkFieldCtx_def)

lemma suppliedInfo_zero:
  "selectionCount (ri_fieldNodes (suppliedInfo fc p h)) = 0 \<Longrightarrow>
   (case cp_info p of None \<Rightarrow> True | Some r \<Rightarrow> selectionCount (ri_fieldNodes (cells h r)) = 0)"
  by (cases "cp_info p") (simp_all add: suppliedInfo_def)

text \<open>
  C1. A callable built for a field whose named return type is not a leaf type, invoked
  with a resolve-info whose field nodes hold zero selections in total: when no
  \<^verbatim>\<open>selectionSet\<close> is given, the callable throws synchronously the error whose message
  names the source, the root type and the field; when a \<^verbatim>\<open>selectionSet\<close> is supplied
  (parseable text, a selection AST or a factory function), nothing is thrown and a
  delegation call is made. The code tests the argument for truthiness: the empty string,
  which is no parseable selection, counts as not given.
\<close>

theorem selectionSet_required:
  assumes "\<not> isLeafType (getNamedType fieldType)"
      and "selectionCount (ri_fieldNodes
             (suppliedInfo (mkFieldCtx src target sch ot rootType (fieldName, fieldType)) p h)) = 0"
  shows "(\<not> truthy_selectionSet (cp_selectionSet p) \<longrightarrow>
            fst (inContextCallable (mkFieldCtx src target sch ot rootType (fieldName, fieldType)) p h)
              = Throws (Error (''You have to provide '' @ [CHR 0x27] @ ''selectionSet'' @ [CHR 0x27]
                               @ '' for context.'' @ src @ ''.'' @ rootType @ ''.'' @ fieldName)))
       \<and> (truthy_selectionSet (cp_selectionSet p) \<longrightarrow>
            (\<exists>call. fst (inContextCallable
                           (mkFieldCtx src target sch ot rootType (fieldName, fieldType)) p h)
                       = Returns call))"
proof (intro conjI impI)
  let ?fc = "mkFieldCtx src target sch ot rootType (fieldName, fieldType)"
  assume falsy: "\<not> truthy_selectionSet (cp_selectionSet p)"
  have "fst (inContextCallable ?fc p h) = Throws (Error (selectionSetErrorMessage ?fc))"
    using assms(1) suppliedInfo_zero[OF assms(2)] falsy
    by (intro callable_throws) (simp_all add: mkFieldCtx_simps)
  then show "fst (inContextCallable ?fc p h)
              = Throws (Error (''You have to provide '' @ [CHR 0x27] @ ''selectionSet'' @ [CHR 0x27]
                               @ '' for context.'' @ src @ ''.'' @ rootType @ ''.'' @ fieldName))"
    by (simp add: selectionSetErrorMessage_def mkFieldCtx_simps)
next
  assume "truthy_selectionSet (cp_selectionSet p)"
  then show "\<exists>call. fst (inContextCallable
                           (mkFieldCtx src target sch ot rootType (fieldName, fieldType)) p h)
                       = Returns call"
    by (intro callable_returns) simp
qed

theorem selectionSet_required_witness:
  "fst (inContextCallable ex_user ex_params ex_heap)
     = Throws (Error (''You have to provide '' @ [CHR 0x27] @ ''selectionSet'' @ [CHR 0x27]
                      @ '' for context.Src.Query.user''))
   \<and> (\<exists>call. fst (inContextCallable ex_user
                    (ex_params\<lparr>cp_selectionSet := Some (Param (SelString ''{ id }''))\<rparr>) ex_heap)
                = Returns call)"
  using selectionSet_required[of "NamedType ''User'' ObjectKind" "''Src''" None ex_schema OpQuery
          "''Query''" "''user''" ex_params ex_heap]
        selectionSet_required[of "NamedType ''User'' ObjectKind" "''Src''" None ex_schema OpQuery
          "''Query''" "''user''" "ex_params\<lparr>cp_selectionSet := Some (Param (SelString ''{ id }''))\<rparr>" ex_heap]
  by (simp add: ex_user_def ex_params_def suppliedInfo_def defaultInfo_def selectionCount_def)

text \<open>
  C2 (as amended). For every invocation that reaches delegation (it does not throw the
  missing-selection error): the batched path, \<^verbatim>\<open>batchDelegateToSchema\<close> carrying
  \<^verbatim>\<open>key\<close>, \<^verbatim>\<open>argsFromKeys\<close> and \<^verbatim>\<open>valuesFromResults\<close>, is taken if and only if
  \<^verbatim>\<open>key\<close> is truthy (a non-empty string) and \<^verbatim>\<open>argsFromKeys\<close> is supplied; in every
  other case the single path, \<^verbatim>\<open>delegateToSchema\<close> with the caller's \<^verbatim>\<open>args\<close>, is taken.
\<close>

theorem dispatch_path:
  assumes "fst (inContextCallable fc p h) = Returns call"
  shows "(truthy_key (cp_key p) \<and> cp_argsFromKeys p \<noteq> None \<longrightarrow>
            call = batchDelegateToSchema (opts call)
            \<and> do_key (opts call) = cp_key p
            \<and> do_argsFromKeys (opts call) = cp_argsFromKeys p
            \<and> do_valuesFromResults (opts call) = cp_valuesFromResults p)
       \<and> (\<not> (truthy_key (cp_key p) \<and> cp_argsFromKeys p \<noteq> None) \<longrightarrow>
            call = delegateToSchema (opts call)
            \<and> do_args (opts call) = Some (cp_args p))"
proof -
  from assms have "inContextCallable fc p h = (Returns call, snd (inContextCallable fc p h))"
    by (cases "inContextCallable fc p h") simp
  from callable_call[OF this] obtain common where
    call: "call = dispatch p (fc_fieldName fc) common"
    by blast
  show ?thesis
    unfolding call
    using dispatch_batch[of p "fc_fieldName fc" common] dispatch_single[of p "fc_fieldName fc" common]
    by blast
qed

theorem dispatch_path_witness:
  "(case fst (inContextCallable ex_user ex_batched ex_heap) of
      Returns call \<Rightarrow> call = batchDelegateToSchema (opts call) \<and> do_key (opts call) = Some ''a''
    | Throws e \<Rightarrow> False)
   \<and> (case fst (inContextCallable ex_user (ex_selected\<lparr>cp_key := Some ''a''\<rparr>) ex_heap) of
      Returns call \<Rightarrow> call = delegateToSchema (opts call) \<and> do_args (opts call) = Some (JObj [(''id'', JNum 1)])
    | Throws e \<Rightarrow> False)"
proof -
  obtain c1 where c1: "fst (inContextCallable ex_user ex_batched ex_heap) = Returns c1"
    using callable_returns[of ex_batched ex_user ex_heap]
    by (auto simp: ex_batched_def ex_selected_def ex_params_def)
  obtain c2 where c2: "fst (inContextCallable ex_user (ex_selected\<lparr>cp_key := Some ''a''\<rparr>) ex_heap) = Returns c2"
    using callable_returns[of "ex_selected\<lparr>cp_key := Some ''a''\<rparr>" ex_user ex_heap]
    by (auto simp: ex_selected_def ex_params_def)
  from dispatch_path[OF c1]
  have b: "c1 = batchDelegateToSchema (opts c1) \<and> do_key (opts c1) = Some ''a''"
    by (simp add: ex_batched_def ex_selected_def ex_params_def)
  from dispatch_path[OF c2]
  have s: "c2 = delegateToSchema (opts c2) \<and> do_args (opts c2) = Some (JObj [(''id'', JNum 1)])"
    by (simp add: ex_selected_def ex_params_def)
  from b s show ?thesis
    by (simp add: c1 c2)
qed

text \<open>An empty string is a supplied \<^verbatim>\<open>key\<close>; with \<^verbatim>\<open>argsFromKeys\<close> supplied as well
  the single path is taken.\<close>

theorem empty_key_counterexample:
  "cp_key ex_emptyKey \<noteq> None \<and> cp_argsFromKeys ex_emptyKey \<noteq> None
   \<and> (case fst (inContextCallable ex_user ex_emptyKey ex_heap) of
        Returns call \<Rightarrow> call = delegateToSchema (opts call)
      | Throws e \<Rightarrow> False)"
  by (simp add: inContextCallable_def ex_user_def ex_emptyKey_def ex_selected_def ex_params_def
        ex_heap_def mkFieldCtx_def alloc_def defaultInfo_def selectionCount_def dispatch_def)

text \<open>
  C3 (as amended). For every invocation that reaches delegation: when no
  \<^verbatim>\<open>selectionSet\<close> is supplied, or it is supplied as text or as a selection AST, the
  delegation options carry the field's full declared return type as \<^verbatim>\<open>returnType\<close>;
  when it is supplied as a factory function, the \<^verbatim>\<open>returnType\<close> override is omitted.
\<close>

theorem returnType_override:
  assumes "fst (inContextCallable (mkFieldCtx src target sch ot rootType (fieldName, fieldType)) p h)
             = Returns call"
  shows "(cp_selectionSet p = None \<longrightarrow> do_returnType (opts call) = Some fieldType)
       \<and> ((\<exists>param. cp_selectionSet p = Some (Param param)) \<longrightarrow> do_returnType (opts call) = Some fieldType)
       \<and> ((\<exists>factory. cp_selectionSet p = Some (Factory factory)) \<longrightarrow> do_returnType (opts call) = None)"
proof -
  let ?fc = "mkFieldCtx src target sch ot rootType (fieldName, fieldType)"
  from assms have "inContextCallable ?fc p h = (Returns call, snd (inContextCallable ?fc p h))"
    by (cases "inContextCallable ?fc p h") simp
  from callable_call[OF this] obtain common where
    call: "call = dispatch p (fc_fieldName ?fc) common"
    and rt: "do_returnType common = (if is_function (cp_selectionSet p) then None else Some (fc_fieldType ?fc))"
    by blast
  have "do_returnType (opts call) = (if is_function (cp_selectionSet p) then None else Some fieldType)"
    unfolding call by (simp add: dispatch_opts rt mkFieldCtx_simps)
  then show ?thesis by auto
qed

theorem returnType_override_witness:
  "(case fst (inContextCallable ex_user ex_selected ex_heap) of
      Returns call \<Rightarrow> do_returnType (opts call) = Some (NamedType ''User'' ObjectKind)
    | Throws e \<Rightarrow> False)
   \<and> (case fst (inContextCallable ex_user
                  (ex_params\<lparr>cp_selectionSet := Some (Factory (\<lambda>subtree. SelSelectionSetNode subtree))\<rparr>)
                  ex_heap) of
      Returns call \<Rightarrow> do_returnType (opts call) = None
    | Throws e \<Rightarrow> False)"
proof -
  let ?f = "ex_params\<lparr>cp_selectionSet := Some (Factory (\<lambda>subtree. SelSelectionSetNode subtree))\<rparr>"
  obtain c1 where c1: "fst (inContextCallable ex_user ex_selected ex_heap) = Returns c1"
    using callable_returns[of ex_selected ex_user ex_heap]
    by (auto simp: ex_selected_def ex_params_def)
  obtain c2 where c2: "fst (inContextCallable ex_user ?f ex_heap) = Returns c2"
    using callable_returns[of ?f ex_user ex_heap]
    by (auto simp: ex_params_def)
  from returnType_override[OF c1[unfolded ex_user_def]]
  have a: "do_returnType (opts c1) = Some (NamedType ''User'' ObjectKind)"
    by (simp add: ex_selected_def ex_params_def)
  from returnType_override[OF c2[unfolded ex_user_def]]
  have b: "do_returnType (opts c2) = None"
    by (simp add: ex_params_def)
  from a b show ?thesis
    by (simp add: c1 c2)
qed

text \<open>With a \<^verbatim>\<open>selectionSet\<close> supplied as text the override is not omitted.\<close>

theorem text_selectionSet_counterexample:
  "cp_selectionSet ex_selected = Some (Param (SelString ''{ id }''))
   \<and> (case fst (inContextCallable ex_user ex_selected ex_heap) of
        Returns call \<Rightarrow> do_returnType (opts call) = Some (NamedType ''User'' ObjectKind)
      | Throws e \<Rightarrow> False)"
  by (simp add: inContextCallable_def ex_user_def ex_selected_def ex_params_def
        ex_heap_def mkFieldCtx_def alloc_def defaultInfo_def selectionCount_def dispatch_def)

text \<open>
  C8. For an invocation on a field of composite return type, with a resolve-info of zero
  selections and a \<^verbatim>\<open>selectionSet\<close> supplied: a truthy \<^verbatim>\<open>selectionSet\<close> makes the
  callable reach delegation, and whenever it does, the info forwarded to delegation is a
  new object whose first field node has the selection set \<^verbatim>\<open>{ __typename }\<close>; its other
  field nodes and its other fields are those of the supplied info, and no object that
  existed before the call (the caller's info among them) is changed.
\<close>

theorem info_patched:
  assumes "\<not> isLeafType (getNamedType fieldType)"
      and "fc = mkFieldCtx src target sch ot rootType (fieldName, fieldType)"
      and "selectionCount (ri_fieldNodes (suppliedInfo fc p h)) = 0"
      and "cp_selectionSet p = Some s"
  shows "(truthy_selectionSet (Some s) \<longrightarrow> (\<exists>call h'. inContextCallable fc p h = (Returns call, h')))
       \<and> (\<forall>call h'. inContextCallable fc p h = (Returns call, h') \<longrightarrow>
            fn_selectionSet (hd (ri_fieldNodes (cells h' (do_info (opts call)))))
              = Some [Field ''__typename'' None]
            \<and> tl (ri_fieldNodes (cells h' (do_info (opts call)))) = tl (ri_fieldNodes (suppliedInfo fc p h))
            \<and> cells h' (do_info (opts call))
                = (suppliedInfo fc p h)\<lparr>ri_fieldNodes := ri_fieldNodes (cells h' (do_info (opts call)))\<rparr>
            \<and> (\<forall>r<nxt h. cells h' r = cells h r)
            \<and> nxt h \<le> do_info (opts call))"
proof (rule conjI)
  show "truthy_selectionSet (Some s) \<longrightarrow> (\<exists>call h'. inContextCallable fc p h = (Returns call, h'))"
  proof
    assume "truthy_selectionSet (Some s)"
    then have "\<exists>call. fst (inContextCallable fc p h) = Returns call"
      using assms(4) by (intro callable_returns) simp
    then show "\<exists>call h'. inContextCallable fc p h = (Returns call, h')"
      by (cases "inContextCallable fc p h") auto
  qed
next
  show "\<forall>call h'. inContextCallable fc p h = (Returns call, h') \<longrightarrow>
            fn_selectionSet (hd (ri_fieldNodes (cells h' (do_info (opts call)))))
              = Some [Field ''__typename'' None]
            \<and> tl (ri_fieldNodes (cells h' (do_info (opts call)))) = tl (ri_fieldNodes (suppliedInfo fc p h))
            \<and> cells h' (do_info (opts call))
                = (suppliedInfo fc p h)\<lparr>ri_fieldNodes := ri_fieldNodes (cells h' (do_info (opts call)))\<rparr>
            \<and> (\<forall>r<nxt h. cells h' r = cells h r)
            \<and> nxt h \<le> do_info (opts call)"
  proof (intro allI impI)
    fix call h'
    assume run: "inContextCallable fc p h = (Returns call, h')"
    have should: "fc_shouldHaveSelectionSet fc"
      using assms(1,2) by (simp add: mkFieldCtx_simps)
    note patched = callable_patched[OF should assms(3) run]
    have 1: "fn_selectionSet (hd (ri_fieldNodes (cells h' (do_info (opts call)))))
            = Some [Field ''__typename'' None]"
      using patched by (simp add: patchInfo_nodes(1) typenameSelections_def)
    have 2: "tl (ri_fieldNodes (cells h' (do_info (opts call)))) = tl (ri_fieldNodes (suppliedInfo fc p h))"
      using patched by (simp add: patchInfo_nodes(2))
    have 3: "cells h' (do_info (opts call))
            = (suppliedInfo fc p h)\<lparr>ri_fieldNodes := ri_fieldNodes (cells h' (do_info (opts call)))\<rparr>"
      using patched patchInfo_nodes(3)[of "suppliedInfo fc p h"] by simp
    have 4: "\<forall>r<nxt h. cells h' r = cells h r"
      using patched by simp
    have 5: "nxt h \<le> do_info (opts call)"
      using patched by simp
    from 1 2 3 4 5
    show "fn_selectionSet (hd (ri_fieldNodes (cells h' (do_info (opts call)))))
              = Some [Field ''__typename'' None]
            \<and> tl (ri_fieldNodes (cells h' (do_info (opts call)))) = tl (ri_fieldNodes (suppliedInfo fc p h))
            \<and> cells h' (do_info (opts call))
                = (suppliedInfo fc p h)\<lparr>ri_fieldNodes := ri_fieldNodes (cells h' (do_info (opts call)))\<rparr>
            \<and> (\<forall>r<nxt h. cells h' r = cells h r)
            \<and> nxt h \<le> do_info (opts call)"
      by blast
  qed
qed

theorem info_patched_witness:
  "(case inContextCallable ex_user (ex_selected\<lparr>cp_info := Some 0\<rparr>) ex_heap1 of
      (Returns call, h') \<Rightarrow>
        fn_selectionSet (hd (ri_fieldNodes (cells h' (do_info (opts call)))))
          = Some [Field ''__typename'' None]
        \<and> tl (ri_fieldNodes (cells h' (do_info (opts call))))
            = [\<lparr>fn_name = Some ''user'', fn_selectionSet = Some []\<rparr>]
        \<and> cells h' 0 = ex_info
        \<and> 1 \<le> do_info (opts call)
    | (Throws e, h') \<Rightarrow> False)"
proof -
  let ?p = "ex_selected\<lparr>cp_info := Some 0\<rparr>"
  have leaf: "\<not> isLeafType (getNamedType (NamedType ''User'' ObjectKind))" by simp
  have zero: "selectionCount (ri_fieldNodes (suppliedInfo ex_user ?p ex_heap1)) = 0"
    by (simp add: suppliedInfo_def ex_heap1_def ex_info_def selectionCount_def)
  have sel: "cp_selectionSet ?p = Some (Param (SelString ''{ id }''))"
    by (simp add: ex_selected_def)
  note main = info_patched[OF leaf ex_user_def zero sel]
  from main obtain call h' where run: "inContextCallable ex_user ?p ex_heap1 = (Returns call, h')"
    by auto
  have lt: "0 < nxt ex_heap1"
    by (simp add: ex_heap1_def)
  from main run lt have
    "fn_selectionSet (hd (ri_fieldNodes (cells h' (do_info (opts call))))) = Some [Field ''__typename'' None]"
    "tl (ri_fieldNodes (cells h' (do_info (opts call)))) = tl (ri_fieldNodes (suppliedInfo ex_user ?p ex_heap1))"
    "cells h' 0 = cells ex_heap1 0"
    "nxt ex_heap1 \<le> do_info (opts call)"
    by blast+
  moreover have "tl (ri_fieldNodes (suppliedInfo ex_user ?p ex_heap1))
                   = [\<lparr>fn_name = Some ''user'', fn_selectionSet = Some []\<rparr>]"
    by (simp add: suppliedInfo_def ex_heap1_def ex_info_def)
  moreover have "cells ex_heap1 0 = ex_info" "nxt ex_heap1 = 1"
    by (simp_all add: ex_heap1_def)
  ultimately have
    "fn_selectionSet (hd (ri_fieldNodes (cells h' (do_info (opts call)))))
          = Some [Field ''__typename'' None]
        \<and> tl (ri_fieldNodes (cells h' (do_info (opts call))))
            = [\<lparr>fn_name = Some ''user'', fn_selectionSet = Some []\<rparr>]
        \<and> cells h' 0 = ex_info
        \<and> 1 \<le> do_info (opts call)"
    by simp
  then show ?thesis
    by (simp add: run)
qed

section \<open>Properties of the SDK builder\<close>

lemma findSubschema_None:
  "(\<forall>entry\<in>set subschemaMap. sc_name (fst entry) \<noteq> Some name) \<Longrightarrow> findSubschema subschemaMap name = None"
  by (induction subschemaMap) auto

lemma callable_throw_only:
  assumes "fst (inContextCallable fc p h) = Throws e"
  shows "e = Error (selectionSetErrorMessage fc)"
  using assms
  by (cases "cp_info p")
     (auto simp add: inContextCallable_def alloc_def Let_def split: prod.splits if_splits)

lemma callable_schema:
  assumes "fst (inContextCallable fc p h) = Returns call"
  shows "do_schema (opts call) = fc_rawSourceSubSchemaConfig fc"
proof -
  from assms have "inContextCallable fc p h = (Returns call, snd (inContextCallable fc p h))"
    by (cases "inContextCallable fc p h") simp
  from callable_call[OF this] show ?thesis
    by (auto simp: dispatch_opts)
qed

lemma buildRawSourceContext_fields:
  assumes "buildRawSourceContext unifiedSchema rawSource = Inr sdk"
      and "rootType \<in> set sdk" and "field \<in> set (snd rootType)"
  shows "fc_rawSourceSubSchemaConfig (snd field) = resolveSubSchemaConfig unifiedSchema rawSource"
  using assms
  by (auto simp add: buildRawSourceContext_def rootTypes_def mkFieldCtx_simps
           split: option.splits)

text \<open>
  C6 (as amended). When \<^verbatim>\<open>stitchingInfo\<close> is present and no subschema config of its
  \<^verbatim>\<open>subschemaMap\<close> has the raw source's name, no configuration error is raised for it,
  neither when the SDK is built nor when a callable is invoked: the SDK of the source is
  built (given that the source map has the source), every callable of it closes over an
  undefined delegation target, an invocation that reaches delegation passes an undefined
  \<^verbatim>\<open>schema\<close>, and the only error a callable throws is the missing-selection error.
\<close>

theorem unmatched_subschema:
  assumes "us_stitchingInfo unifiedSchema = Some subschemaMap"
      and "\<forall>entry\<in>set subschemaMap. sc_name (fst entry) \<noteq> Some (rs_name rawSource)"
      and "map_of (us_sourceMap unifiedSchema) (rs_name rawSource) = Some transformedSchema"
  shows "\<exists>sdk. buildRawSourceContext unifiedSchema rawSource = Inr sdk
           \<and> (\<forall>rootType\<in>set sdk. \<forall>field\<in>set (snd rootType).
                 fc_rawSourceSubSchemaConfig (snd field) = None
                 \<and> (\<forall>p h call. fst (inContextCallable (snd field) p h) = Returns call
                        \<longrightarrow> do_schema (opts call) = None)
                 \<and> (\<forall>p h e. fst (inContextCallable (snd field) p h) = Throws e
                        \<longrightarrow> e = Error (selectionSetErrorMessage (snd field))))"
proof -
  have none: "resolveSubSchemaConfig unifiedSchema rawSource = None"
    using assms(1) findSubschema_None[OF assms(2)] by (simp add: resolveSubSchemaConfig_def)
  obtain sdk where sdk: "buildRawSourceContext unifiedSchema rawSource = Inr sdk"
    using assms(3) by (simp add: buildRawSourceContext_def)
  have "\<forall>rootType\<in>set sdk. \<forall>field\<in>set (snd rootType).
                 fc_rawSourceSubSchemaConfig (snd field) = None
                 \<and> (\<forall>p h call. fst (inContextCallable (snd field) p h) = Returns call
                        \<longrightarrow> do_schema (opts call) = None)
                 \<and> (\<forall>p h e. fst (inContextCallable (snd field) p h) = Throws e
                        \<longrightarrow> e = Error (selectionSetErrorMessage (snd field)))"
  proof (intro ballI)
    fix rootType field
    assume "rootType \<in> set sdk" "field \<in> set (snd rootType)"
    from buildRawSourceContext_fields[OF sdk this] none
    have target: "fc_rawSourceSubSchemaConfig (snd field) = None" by simp
    show "fc_rawSourceSubSchemaConfig (snd field) = None
                 \<and> (\<forall>p h call. fst (inContextCallable (snd field) p h) = Returns call
                        \<longrightarrow> do_schema (opts call) = None)
                 \<and> (\<forall>p h e. fst (inContextCallable (snd field) p h) = Throws e
                        \<longrightarrow> e = Error (selectionSetErrorMessage (snd field)))"
      using target callable_schema[of "snd field"] callable_throw_only[of "snd field"]
      by auto
  qed
  with sdk show ?thesis by blast
qed

lemma ex_sdk:
  "buildRawSourceContext ex_stitched ex_rawSource
     = Inr [(''Query'',
             [(''user'', mkFieldCtx ''Src'' None ex_schema OpQuery ''Query'' (''user'', NamedType ''User'' ObjectKind)),
              (''version'', mkFieldCtx ''Src'' None ex_schema OpQuery ''Query'' (''version'', NamedType ''String'' ScalarKind))])]"
  by (simp add: buildRawSourceContext_def ex_stitched_def ex_rawSource_def resolveSubSchemaConfig_def
        rootTypes_def ex_schema_def)

theorem unmatched_subschema_witness:
  "(case buildRawSourceContext ex_stitched ex_rawSource of
      Inl e \<Rightarrow> False
    | Inr sdk \<Rightarrow>
        list_all (\<lambda>rootType. list_all (\<lambda>field. fc_rawSourceSubSchemaConfig (snd field) = None)
                                 (snd rootType)) sdk)"
proof -
  have present: "us_stitchingInfo ex_stitched
                   = Some [(\<lparr>sc_name = Some ''Other'', sc_schema = ex_schema, sc_executor = Executor ''http''\<rparr>,
                            \<lparr>sc_name = Some ''Other'', sc_schema = ex_schema, sc_executor = Executor ''http''\<rparr>)]"
    by (simp add: ex_stitched_def)
  have unmatched:
    "\<forall>entry\<in>set [(\<lparr>sc_name = Some ''Other'', sc_schema = ex_schema, sc_executor = Executor ''http''\<rparr>,
                       \<lparr>sc_name = Some ''Other'', sc_schema = ex_schema, sc_executor = Executor ''http''\<rparr>)].
        sc_name (fst entry) \<noteq> Some (rs_name ex_rawSource)"
    by (simp add: ex_rawSource_def)
  have mapped: "map_of (us_sourceMap ex_stitched) (rs_name ex_rawSource) = Some ex_schema"
    by (simp add: ex_stitched_def ex_rawSource_def)
  from unmatched_subschema[OF present unmatched mapped]
  obtain sdk where "buildRawSourceContext ex_stitched ex_rawSource = Inr sdk"
    and "\<forall>rootType\<in>set sdk. \<forall>field\<in>set (snd rootType). fc_rawSourceSubSchemaConfig (snd field) = None"
    by blast
  then show ?thesis
    by (simp add: list_all_iff)
qed

text \<open>The SDK is built without an error, and the callable of the scalar field
  \<^verbatim>\<open>version\<close> delegates with an undefined schema instead of throwing.\<close>

theorem unmatched_subschema_counterexample:
  "us_stitchingInfo ex_stitched \<noteq> None
   \<and> resolveSubSchemaConfig ex_stitched ex_rawSource = None
   \<and> (case buildRawSourceContext ex_stitched ex_rawSource of
      Inl e \<Rightarrow> False
    | Inr sdk \<Rightarrow>
        (case Option.bind (lookupProperty sdk ''Query'') (\<lambda>fields. lookupProperty fields ''version'') of
           None \<Rightarrow> False
         | Some version \<Rightarrow>
             (case fst (inContextCallable version ex_params ex_heap) of
                Throws e \<Rightarrow> False
              | Returns call \<Rightarrow> call = delegateToSchema (opts call) \<and> do_schema (opts call) = None)))"
  by (simp add: ex_sdk lookupProperty_def inContextCallable_def mkFieldCtx_def ex_params_def
        alloc_def dispatch_def)
     (simp add: ex_stitched_def resolveSubSchemaConfig_def ex_rawSource_def)

section \<open>Properties of the source registry\<close>

lemma loadOutcome_handler:
  "isl (getMeshSource (as_handler apiSource)) \<Longrightarrow> isl (loadOutcome ap apiSource)"
  "getMeshSource (as_handler apiSource) = Inr source \<Longrightarrow>
     loadOutcome ap apiSource = rawSourceOutput ap apiSource source"
  by (cases "getMeshSource (as_handler apiSource)"; simp add: loadOutcome_def)+

lemma resume_failed:
  "ls_failed (resumeSource ap s st) = (ls_failed st \<or> isl (loadOutcome ap s))"
proof (cases "getMeshSource (as_handler s)")
  case (Inl e)
  then show ?thesis by (simp add: resumeSource_def loadOutcome_def)
next
  case (Inr source)
  then show ?thesis
    by (cases "rawSourceOutput ap s source") (simp_all add: resumeSource_def loadOutcome_def)
qed

lemma resume_rawSources:
  "ls_rawSources (resumeSource ap s st) =
     ls_rawSources st @ (case loadOutcome ap s of Inl e \<Rightarrow> [] | Inr rawSource \<Rightarrow> [rawSource])"
proof (cases "getMeshSource (as_handler s)")
  case (Inl e)
  then show ?thesis by (simp add: resumeSource_def loadOutcome_def)
next
  case (Inr source)
  then show ?thesis
    by (cases "rawSourceOutput ap s source") (simp_all add: resumeSource_def loadOutcome_def)
qed

lemma resume_logs:
  "\<exists>entries. ls_logs (resumeSource ap s st) = ls_logs st @ entries \<and> completionEntry ap s \<in> set entries"
proof (cases "getMeshSource (as_handler s)")
  case (Inl e)
  then show ?thesis by (simp add: resumeSource_def loadOutcome_def completionEntry_def)
next
  case (Inr source)
  then show ?thesis
    by (cases "rawSourceOutput ap s source")
       (simp_all add: resumeSource_def loadOutcome_def completionEntry_def)
qed

lemma resume_logs_entry:
  "completionEntry ap s \<in> set (ls_logs (resumeSource ap s st))"
  using resume_logs[of ap s st] by auto

lemma resume_logs_mono:
  "e \<in> set (ls_logs st) \<Longrightarrow> e \<in> set (ls_logs (resumeSource ap s st))"
  using resume_logs[of ap s st] by auto

lemma settleAll_Nil: "settleAll ap sources [] st = st"
  by (simp add: settleAll_def)

lemma settleAll_Cons: "settleAll ap sources (i # order) st =
   settleAll ap sources order (if i < length sources then resumeSource ap (sources ! i) st else st)"
  by (simp add: settleAll_def)

lemma settle_failed:
  "ls_failed (settleAll ap sources order st)
   = (ls_failed st \<or> (\<exists>i\<in>set order. i < length sources \<and> isl (loadOutcome ap (sources ! i))))"
proof (induction order arbitrary: st)
  case Nil
  show ?case by (simp add: settleAll_Nil)
next
  case (Cons i order)
  show ?case
    unfolding settleAll_Cons Cons.IH
    by (cases "i < length sources") (auto simp: resume_failed)
qed

lemma settle_rawSources:
  assumes "\<forall>i\<in>set order. i < length sources \<and> \<not> isl (loadOutcome ap (sources ! i))"
  shows "ls_rawSources (settleAll ap sources order st)
   = ls_rawSources st @ map (\<lambda>i. projr (loadOutcome ap (sources ! i))) order"
  using assms
proof (induction order arbitrary: st)
  case Nil
  show ?case by (simp add: settleAll_Nil)
next
  case (Cons i order)
  from Cons.prems have i: "i < length sources" and ok: "\<not> isl (loadOutcome ap (sources ! i))"
    by simp_all
  from ok obtain rawSource where out: "loadOutcome ap (sources ! i) = Inr rawSource"
    by (cases "loadOutcome ap (sources ! i)") simp_all
  from Cons.prems have rest: "\<forall>i\<in>set order. i < length sources \<and> \<not> isl (loadOutcome ap (sources ! i))"
    by simp
  show ?case
    unfolding settleAll_Cons Cons.IH[OF rest]
    using i out by (simp add: resume_rawSources)
qed

lemma settle_rawSources_set:
  "set (ls_rawSources (settleAll ap sources order st))
   = set (ls_rawSources st)
     \<union> {rawSource. \<exists>i\<in>set order. i < length sources \<and> loadOutcome ap (sources ! i) = Inr rawSource}"
proof (induction order arbitrary: st)
  case Nil
  show ?case by (simp add: settleAll_Nil)
next
  case (Cons i order)
  show ?case
  proof (cases "i < length sources")
    case True
    then show ?thesis
      unfolding settleAll_Cons Cons.IH
      by (cases "loadOutcome ap (sources ! i)") (auto simp: resume_rawSources)
  next
    case False
    then show ?thesis
      unfolding settleAll_Cons Cons.IH by auto
  qed
qed

lemma settle_logs_mono:
  "e \<in> set (ls_logs st) \<Longrightarrow> e \<in> set (ls_logs (settleAll ap sources order st))"
proof (induction order arbitrary: st)
  case Nil
  then show ?case by (simp add: settleAll_Nil)
next
  case (Cons i order)
  from Cons.prems
  have "e \<in> set (ls_logs (if i < length sources then resumeSource ap (sources ! i) st else st))"
    by (simp add: resume_logs_mono)
  then show ?case unfolding settleAll_Cons by (rule Cons.IH)
qed

lemma settle_logs_complete:
  assumes "i \<in> set order" "i < length sources"
  shows "completionEntry ap (sources ! i) \<in> set (ls_logs (settleAll ap sources order st))"
  using assms
proof (induction order arbitrary: st)
  case Nil
  then show ?case by simp
next
  case (Cons j order)
  let ?st = "if j < length sources then resumeSource ap (sources ! j) st else st"
  show ?case
  proof (cases "i = j")
    case True
    with Cons.prems have "completionEntry ap (sources ! i) \<in> set (ls_logs ?st)"
      by (simp add: resume_logs_entry)
    then show ?thesis unfolding settleAll_Cons by (rule settle_logs_mono)
  next
    case False
    with Cons.prems have "i \<in> set order" by simp
    then show ?thesis unfolding settleAll_Cons using Cons.prems(2) by (rule Cons.IH)
  qed
qed

lemma started_state:
  "ls_failed (foldl (\<lambda>st apiSource. startSource apiSource st) st sources) = ls_failed st"
  "ls_rawSources (foldl (\<lambda>st apiSource. startSource apiSource st) st sources) = ls_rawSources st"
  by (induction sources arbitrary: st) (simp_all add: startSource_def)

lemma loadSources_Some:
  assumes "\<forall>i<length sources. i \<in> set completionOrder"
  shows "loadSources ap sources completionOrder
           = Some (settleAll ap sources completionOrder
                     (foldl (\<lambda>st apiSource. startSource apiSource st) initialLoadState sources))"
  using assms by (simp add: loadSources_def list_all_iff)

lemma loadSources_None:
  "(loadSources ap sources completionOrder = None) = (\<not> (\<forall>i<length sources. i \<in> set completionOrder))"
  by (auto simp add: loadSources_def list_all_iff)

lemma rawSourceOutput_name:
  "rawSourceOutput ap apiSource source = Inr rawSource \<Longrightarrow> rs_name rawSource = as_name apiSource"
  by (auto simp add: rawSourceOutput_def Let_def split: prod.splits sum.splits)

lemma map_index_sources: "map (\<lambda>i. f (sources ! i)) [0..<length sources] = map f sources"
  by (rule nth_equalityI) simp_all

text \<open>
  C4 (as amended). When the load of every configured source succeeds (its handler
  resolves, and applying its bare transforms does not throw) and every handler settles,
  the registry returns one \<open>RawSource\<close> record per configured source, in the order in
  which the handlers completed: each record is pushed when the handler of its source
  resolves. The list is in configuration order when the handlers complete in
  configuration order.
\<close>

theorem rawSources_in_completion_order:
  assumes "\<forall>apiSource\<in>set sources. \<exists>source rawSource.
             getMeshSource (as_handler apiSource) = Inr source
             \<and> rawSourceOutput ap apiSource source = Inr rawSource"
      and "distinct completionOrder"
      and "set completionOrder = {..<length sources}"
  shows "\<exists>st. loadSources ap sources completionOrder = Some st
           \<and> \<not> ls_failed st
           \<and> ls_rawSources st
               = map (\<lambda>i. projr (loadOutcome ap (sources ! i))) completionOrder
           \<and> map rs_name (ls_rawSources st) = map (\<lambda>i. as_name (sources ! i)) completionOrder
           \<and> length (ls_rawSources st) = length sources
           \<and> (completionOrder = [0..<length sources] \<longrightarrow>
                ls_rawSources st = map (\<lambda>apiSource. projr (loadOutcome ap apiSource)) sources)"
proof -
  let ?started = "foldl (\<lambda>st apiSource. startSource apiSource st) initialLoadState sources"
  let ?st = "settleAll ap sources completionOrder ?started"
  have settled: "\<forall>i<length sources. i \<in> set completionOrder"
    using assms(3) by simp
  have load: "loadSources ap sources completionOrder = Some ?st"
    by (rule loadSources_Some[OF settled])
  have each: "\<And>apiSource. apiSource \<in> set sources \<Longrightarrow>
                \<not> isl (loadOutcome ap apiSource)
                \<and> rs_name (projr (loadOutcome ap apiSource)) = as_name apiSource"
  proof -
    fix apiSource assume "apiSource \<in> set sources"
    with assms(1) obtain source rawSource where
      h: "getMeshSource (as_handler apiSource) = Inr source"
      and r: "rawSourceOutput ap apiSource source = Inr rawSource"
      by blast
    from loadOutcome_handler(2)[OF h, of ap] r
    have "loadOutcome ap apiSource = Inr rawSource" by simp
    with rawSourceOutput_name[OF r]
    show "\<not> isl (loadOutcome ap apiSource)
            \<and> rs_name (projr (loadOutcome ap apiSource)) = as_name apiSource"
      by simp
  qed
  have ok: "\<forall>i\<in>set completionOrder. i < length sources \<and> \<not> isl (loadOutcome ap (sources ! i))"
    using assms(3) each by simp
  have nofail: "\<not> ls_failed ?st"
    using ok by (simp add: settle_failed started_state initialLoadState_def)
  have raws: "ls_rawSources ?st = map (\<lambda>i. projr (loadOutcome ap (sources ! i))) completionOrder"
    using settle_rawSources[OF ok, of ?started]
    by (simp add: started_state initialLoadState_def)
  have names: "map rs_name (ls_rawSources ?st) = map (\<lambda>i. as_name (sources ! i)) completionOrder"
    unfolding raws using assms(3) each by simp
  have "card (set completionOrder) = length completionOrder"
    using assms(2) by (rule distinct_card)
  then have len: "length (ls_rawSources ?st) = length sources"
    using assms(3) raws by simp
  have cfg: "completionOrder = [0..<length sources] \<longrightarrow>
                ls_rawSources ?st = map (\<lambda>apiSource. projr (loadOutcome ap apiSource)) sources"
  proof
    assume "completionOrder = [0..<length sources]"
    with raws have "ls_rawSources ?st
               = map (\<lambda>i. projr (loadOutcome ap (sources ! i))) [0..<length sources]"
      by simp
    also have "\<dots> = map (\<lambda>apiSource. projr (loadOutcome ap apiSource)) sources"
      by (rule map_index_sources)
    finally show "ls_rawSources ?st = map (\<lambda>apiSource. projr (loadOutcome ap apiSource)) sources" .
  qed
  from load nofail raws names len cfg show ?thesis by blast
qed

theorem rawSources_in_completion_order_witness:
  "map_option (map rs_name \<circ> ls_rawSources)
      (loadSources ex_apply [ex_sourceA, ex_sourceB, ex_bare] [2, 0, 1])
     = Some [''T'', ''A'', ''B'']"
proof -
  have ok: "\<forall>apiSource\<in>set [ex_sourceA, ex_sourceB, ex_bare]. \<exists>source rawSource.
              getMeshSource (as_handler apiSource) = Inr source
              \<and> rawSourceOutput ex_apply apiSource source = Inr rawSource"
    by (simp add: ex_sourceA_def ex_sourceB_def ex_bare_def rawSourceOutput_def groupTransforms_def
          ex_apply_def)
  have d: "distinct [2, 0, 1::nat]" by simp
  have s: "set [2, 0, 1::nat] = {..<length [ex_sourceA, ex_sourceB, ex_bare]}"
    by (auto simp: lessThan_def)
  from rawSources_in_completion_order[OF ok d s]
  obtain st where "loadSources ex_apply [ex_sourceA, ex_sourceB, ex_bare] [2, 0, 1] = Some st"
    and "map rs_name (ls_rawSources st)
           = map (\<lambda>i. as_name ([ex_sourceA, ex_sourceB, ex_bare] ! i)) [2, 0, 1]"
    by blast
  then show ?thesis
    by (simp add: ex_sourceA_def ex_sourceB_def ex_bare_def)
qed

text \<open>Two sources whose handlers both succeed, the second completing first: the records
  come in completion order, not in configuration order.\<close>

theorem completion_order_counterexample:
  "\<not> isl (getMeshSource (as_handler ex_sourceA))
   \<and> \<not> isl (getMeshSource (as_handler ex_sourceB))
   \<and> map as_name [ex_sourceA, ex_sourceB] = [''A'', ''B'']
   \<and> map_option (map rs_name \<circ> ls_rawSources)
        (loadSources ex_apply [ex_sourceA, ex_sourceB] [1, 0])
       = Some [''B'', ''A'']"
  by (simp add: loadSources_def settleAll_def resume_rawSources loadOutcome_def rawSourceOutput_def
        groupTransforms_def ex_apply_def startSource_def initialLoadState_def ex_sourceA_def
        ex_sourceB_def)

text \<open>
  C5 (as amended). \<^verbatim>\<open>getMesh\<close> settles only when the handler of every source has
  settled. Then, if the load of at least one source failed (its handler threw, or its
  handler resolved and applying its bare transforms threw), \<^verbatim>\<open>getMesh\<close> is rejected with
  the one error \<open>schemasError\<close>, and the log written by then holds the completion entry
  of every source: each load attempt has finished, the successful ones too. If the load of
  no source failed, the merger is called with the records of all sources, and
  \<^verbatim>\<open>getMesh\<close> is rejected with what the merger or the SDK builder throws, or fulfilled
  with the instance built from the merged schema and these records.
\<close>

theorem registry_failure:
  "(getMesh ap merger sources completionOrder = None)
     = (\<not> (\<forall>i<length sources. i \<in> set completionOrder))
   \<and> ((\<forall>i<length sources. i \<in> set completionOrder)
        \<and> (\<exists>apiSource\<in>set sources. isl (loadOutcome ap apiSource))
      \<longrightarrow> (\<exists>logs. getMesh ap merger sources completionOrder = Some (Rejected schemasError, logs)
                  \<and> (\<forall>apiSource\<in>set sources. completionEntry ap apiSource \<in> set logs)))
   \<and> ((\<forall>i<length sources. i \<in> set completionOrder)
        \<and> (\<forall>apiSource\<in>set sources. \<not> isl (loadOutcome ap apiSource))
      \<longrightarrow> (\<exists>st. loadSources ap sources completionOrder = Some st
                \<and> set (ls_rawSources st)
                    = {rawSource. \<exists>apiSource\<in>set sources. loadOutcome ap apiSource = Inr rawSource}
                \<and> getMesh ap merger sources completionOrder
                    = Some (case merger (ls_rawSources st) of
                              Inl e \<Rightarrow> Rejected e
                            | Inr unifiedSchema \<Rightarrow>
                                (case buildMeshContext unifiedSchema (ls_rawSources st) of
                                   Inl e \<Rightarrow> Rejected e
                                 | Inr meshContext \<Rightarrow>
                                     Fulfilled \<lparr>mi_schema = unifiedSchema,
                                                mi_rawSources = ls_rawSources st,
                                                mi_meshContext = meshContext\<rparr>),
                            ls_logs st)))
   \<and> (\<forall>apiSource\<in>set sources.
         isl (loadOutcome ap apiSource)
           = (case getMeshSource (as_handler apiSource) of
                Inl e \<Rightarrow> True
              | Inr source \<Rightarrow> isl (rawSourceOutput ap apiSource source)))"
proof (intro conjI impI ballI)
  show "(getMesh ap merger sources completionOrder = None)
          = (\<not> (\<forall>i<length sources. i \<in> set completionOrder))"
  proof -
    have "(getMesh ap merger sources completionOrder = None)
            = (loadSources ap sources completionOrder = None)"
      by (cases "loadSources ap sources completionOrder") (simp_all add: getMesh_def)
    then show ?thesis
      by (simp only: loadSources_None)
  qed
next
  let ?started = "foldl (\<lambda>st apiSource. startSource apiSource st) initialLoadState sources"
  let ?st = "settleAll ap sources completionOrder ?started"
  assume a: "(\<forall>i<length sources. i \<in> set completionOrder)
        \<and> (\<exists>apiSource\<in>set sources. isl (loadOutcome ap apiSource))"
  then have settled: "\<forall>i<length sources. i \<in> set completionOrder" by simp
  have load: "loadSources ap sources completionOrder = Some ?st"
    by (rule loadSources_Some[OF settled])
  from a obtain i where i: "i < length sources" "isl (loadOutcome ap (sources ! i))"
    by (auto simp: in_set_conv_nth)
  with settled have "\<exists>i\<in>set completionOrder. i < length sources \<and> isl (loadOutcome ap (sources ! i))"
    by blast
  then have failed: "ls_failed ?st"
    by (simp add: settle_failed)
  have entries: "\<forall>apiSource\<in>set sources. completionEntry ap apiSource \<in> set (ls_logs ?st)"
  proof
    fix apiSource assume "apiSource \<in> set sources"
    then obtain j where j: "j < length sources" "apiSource = sources ! j"
      by (auto simp: in_set_conv_nth)
    with settled have "j \<in> set completionOrder" by simp
    from settle_logs_complete[OF this j(1)] j(2)
    show "completionEntry ap apiSource \<in> set (ls_logs ?st)" by simp
  qed
  have "getMesh ap merger sources completionOrder = Some (Rejected schemasError, ls_logs ?st)"
    using load failed by (simp add: getMesh_def)
  with entries
  show "\<exists>logs. getMesh ap merger sources completionOrder = Some (Rejected schemasError, logs)
                  \<and> (\<forall>apiSource\<in>set sources. completionEntry ap apiSource \<in> set logs)"
    by blast
next
  let ?started = "foldl (\<lambda>st apiSource. startSource apiSource st) initialLoadState sources"
  let ?st = "settleAll ap sources completionOrder ?started"
  assume a: "(\<forall>i<length sources. i \<in> set completionOrder)
        \<and> (\<forall>apiSource\<in>set sources. \<not> isl (loadOutcome ap apiSource))"
  then have settled: "\<forall>i<length sources. i \<in> set completionOrder" by simp
  have load: "loadSources ap sources completionOrder = Some ?st"
    by (rule loadSources_Some[OF settled])
  from a have "\<not> (\<exists>i\<in>set completionOrder. i < length sources \<and> isl (loadOutcome ap (sources ! i)))"
    by auto
  then have nofail: "\<not> ls_failed ?st"
    by (simp add: settle_failed started_state initialLoadState_def)
  have "set (ls_rawSources ?st)
          = {rawSource. \<exists>i\<in>set completionOrder. i < length sources
                          \<and> loadOutcome ap (sources ! i) = Inr rawSource}"
    by (simp add: settle_rawSources_set started_state initialLoadState_def)
  also have "\<dots> = {rawSource. \<exists>apiSource\<in>set sources. loadOutcome ap apiSource = Inr rawSource}"
  proof (rule set_eqI, rule iffI)
    fix rawSource
    assume "rawSource \<in> {rawSource. \<exists>i\<in>set completionOrder. i < length sources
                          \<and> loadOutcome ap (sources ! i) = Inr rawSource}"
    then obtain i where "i < length sources" "loadOutcome ap (sources ! i) = Inr rawSource"
      by blast
    moreover from this(1) have "sources ! i \<in> set sources" by simp
    ultimately show "rawSource \<in> {rawSource. \<exists>apiSource\<in>set sources.
                                                 loadOutcome ap apiSource = Inr rawSource}"
      by blast
  next
    fix rawSource
    assume "rawSource \<in> {rawSource. \<exists>apiSource\<in>set sources.
                                        loadOutcome ap apiSource = Inr rawSource}"
    then obtain apiSource where "apiSource \<in> set sources" "loadOutcome ap apiSource = Inr rawSource"
      by blast
    then obtain i where "i < length sources" "loadOutcome ap (sources ! i) = Inr rawSource"
      by (auto simp: in_set_conv_nth)
    moreover from this(1) settled have "i \<in> set completionOrder" by simp
    ultimately show "rawSource \<in> {rawSource. \<exists>i\<in>set completionOrder. i < length sources
                          \<and> loadOutcome ap (sources ! i) = Inr rawSource}"
      by blast
  qed
  finally have raws: "set (ls_rawSources ?st)
          = {rawSource. \<exists>apiSource\<in>set sources. loadOutcome ap apiSource = Inr rawSource}" .
  have run: "getMesh ap merger sources completionOrder
                    = Some (case merger (ls_rawSources ?st) of
                              Inl e \<Rightarrow> Rejected e
                            | Inr unifiedSchema \<Rightarrow>
                                (case buildMeshContext unifiedSchema (ls_rawSources ?st) of
                                   Inl e \<Rightarrow> Rejected e
                                 | Inr meshContext \<Rightarrow>
                                     Fulfilled \<lparr>mi_schema = unifiedSchema,
                                                mi_rawSources = ls_rawSources ?st,
                                                mi_meshContext = meshContext\<rparr>),
                            ls_logs ?st)"
    using load nofail by (simp add: getMesh_def afterRegistry_def)
  from load raws run
  show "\<exists>st. loadSources ap sources completionOrder = Some st
                \<and> set (ls_rawSources st)
                    = {rawSource. \<exists>apiSource\<in>set sources. loadOutcome ap apiSource = Inr rawSource}
                \<and> getMesh ap merger sources completionOrder
                    = Some (case merger (ls_rawSources st) of
                              Inl e \<Rightarrow> Rejected e
                            | Inr unifiedSchema \<Rightarrow>
                                (case buildMeshContext unifiedSchema (ls_rawSources st) of
                                   Inl e \<Rightarrow> Rejected e
                                 | Inr meshContext \<Rightarrow>
                                     Fulfilled \<lparr>mi_schema = unifiedSchema,
                                                mi_rawSources = ls_rawSources st,
                                                mi_meshContext = meshContext\<rparr>),
                            ls_logs st)"
    by blast
next
  fix apiSource assume "apiSource \<in> set sources"
  show "isl (loadOutcome ap apiSource)
           = (case getMeshSource (as_handler apiSource) of
                Inl e \<Rightarrow> True
              | Inr source \<Rightarrow> isl (rawSourceOutput ap apiSource source))"
    by (cases "getMeshSource (as_handler apiSource)") (simp_all add: loadOutcome_def)
qed

theorem registry_failure_witness:
  "(case getMesh ex_apply ex_merger [ex_sourceA, ex_failing] [1, 0] of
      Some (Rejected e, logs) \<Rightarrow>
        e = schemasError
        \<and> LogError ''F'' (FailedToGenerate (Error ''unreachable'')) \<in> set logs
        \<and> LogDebug ''A'' SchemaGenerated \<in> set logs
    | Some (Fulfilled instance, logs) \<Rightarrow> False
    | None \<Rightarrow> False)
   \<and> getMesh ex_apply ex_merger [ex_sourceA, ex_failing] [1] = None
   \<and> (case getMesh ex_apply ex_merger [ex_sourceA, ex_sourceB] [1, 0] of
        Some (Fulfilled instance, logs) \<Rightarrow>
          map rs_name (mi_rawSources instance) = [''B'', ''A'']
          \<and> map fst (mi_meshContext instance) = [''B'', ''A'']
      | Some (Rejected e, logs) \<Rightarrow> False
      | None \<Rightarrow> False)"
proof -
  have settled: "\<forall>i<length [ex_sourceA, ex_failing]. i \<in> set [1, 0::nat]"
    by (auto simp: less_Suc_eq)
  have fails: "\<exists>apiSource\<in>set [ex_sourceA, ex_failing]. isl (loadOutcome ex_apply apiSource)"
    by (simp add: ex_failing_def loadOutcome_def)
  note main = registry_failure[of ex_apply ex_merger "[ex_sourceA, ex_failing]"]
  from main[of "[1, 0]"] settled fails
  obtain logs where run: "getMesh ex_apply ex_merger [ex_sourceA, ex_failing] [1, 0]
                            = Some (Rejected schemasError, logs)"
    and entries: "\<forall>apiSource\<in>set [ex_sourceA, ex_failing]. completionEntry ex_apply apiSource \<in> set logs"
    by blast
  from entries have 1: "LogError ''F'' (FailedToGenerate (Error ''unreachable'')) \<in> set logs"
    "LogDebug ''A'' SchemaGenerated \<in> set logs"
    by (simp_all add: completionEntry_def loadOutcome_def rawSourceOutput_def groupTransforms_def
          ex_apply_def ex_failing_def ex_sourceA_def)
  have 2: "getMesh ex_apply ex_merger [ex_sourceA, ex_failing] [1] = None"
    using main[of "[1]"] by (simp add: less_Suc_eq)
  have settled': "\<forall>i<length [ex_sourceA, ex_sourceB]. i \<in> set [1, 0::nat]"
    by (auto simp: less_Suc_eq)
  have ok: "\<forall>apiSource\<in>set [ex_sourceA, ex_sourceB]. \<not> isl (loadOutcome ex_apply apiSource)"
    by (simp add: loadOutcome_def rawSourceOutput_def groupTransforms_def ex_apply_def
          ex_sourceA_def ex_sourceB_def)
  from registry_failure[of ex_apply ex_merger "[ex_sourceA, ex_sourceB]" "[1, 0]"] settled' ok
  obtain st where load: "loadSources ex_apply [ex_sourceA, ex_sourceB] [1, 0] = Some st"
    and run': "getMesh ex_apply ex_merger [ex_sourceA, ex_sourceB] [1, 0]
                 = Some (case ex_merger (ls_rawSources st) of
                           Inl e \<Rightarrow> Rejected e
                         | Inr unifiedSchema \<Rightarrow>
                             (case buildMeshContext unifiedSchema (ls_rawSources st) of
                                Inl e \<Rightarrow> Rejected e
                              | Inr meshContext \<Rightarrow>
                                  Fulfilled \<lparr>mi_schema = unifiedSchema,
                                             mi_rawSources = ls_rawSources st,
                                             mi_meshContext = meshContext\<rparr>),
                         ls_logs st)"
    by blast
  from load have raws: "ls_rawSources st
        = [projr (loadOutcome ex_apply ex_sourceB), projr (loadOutcome ex_apply ex_sourceA)]"
    by (auto simp add: loadSources_def settleAll_def resume_rawSources startSource_def
          initialLoadState_def loadOutcome_def rawSourceOutput_def groupTransforms_def ex_apply_def
          ex_sourceA_def ex_sourceB_def)
  have 3: "(case getMesh ex_apply ex_merger [ex_sourceA, ex_sourceB] [1, 0] of
        Some (Fulfilled instance, logs) \<Rightarrow>
          map rs_name (mi_rawSources instance) = [''B'', ''A'']
          \<and> map fst (mi_meshContext instance) = [''B'', ''A'']
      | Some (Rejected e, logs) \<Rightarrow> False
      | None \<Rightarrow> False)"
    unfolding run' raws
    by (simp add: ex_merger_def buildRawSourceContext_def resolveSubSchemaConfig_def
          loadOutcome_def rawSourceOutput_def groupTransforms_def ex_apply_def
          ex_sourceA_def ex_sourceB_def ex_meshSource_def)
  from 1 2 3 show ?thesis
    unfolding run by simp
qed

text \<open>A source whose handler succeeds and whose bare transform throws when applied: no
  handler throws, and \<^verbatim>\<open>getMesh\<close> is rejected all the same.\<close>

theorem bare_transform_counterexample:
  "\<not> isl (getMeshSource (as_handler ex_bare))
   \<and> (case getMesh ex_throwingApply ex_merger [ex_bare] [0] of
        Some (Rejected e, logs) \<Rightarrow>
          e = schemasError \<and> LogError ''T'' (FailedToGenerate (Error ''transform failed'')) \<in> set logs
      | Some (Fulfilled instance, logs) \<Rightarrow> False
      | None \<Rightarrow> False)"
  by (simp add: getMesh_def loadSources_def settleAll_def resumeSource_def rawSourceOutput_def
        groupTransforms_def ex_throwingApply_def startSource_def initialLoadState_def ex_bare_def
        transformLogs_def)

section \<open>Properties of the execution pipeline\<close>

lemma getEnveloped_hit:
  assumes "cached rt pl c = Some q"
  shows "getEnveloped pl c rt = (q, rt)"
proof (cases "rt_factories rt pl")
  case None
  with assms show ?thesis by (simp add: cached_def)
next
  case (Some f)
  with assms have "bc_cache (rt_closures rt f) c = Some q" by (simp add: cached_def)
  with Some show ?thesis
    by (simp add: getEnveloped_def memoizedGetEnvelopedFactory_def getEnvelopedByContext_def Let_def)
qed

lemma getEnveloped_known:
  assumes "rt_factories rt pl = Some f" and "bc_cache (rt_closures rt f) c = None"
  shows "getEnveloped pl c rt
           = (newPipeline (bc_plugins (rt_closures rt f)) c rt,
              rt\<lparr>rt_closures :=
                   (rt_closures rt)
                     (f := (rt_closures rt f)
                             \<lparr>bc_cache := (bc_cache (rt_closures rt f))
                                            (c \<mapsto> newPipeline (bc_plugins (rt_closures rt f)) c rt)\<rparr>),
                 rt_next := Suc (rt_next rt)\<rparr>)"
  using assms
  by (simp add: getEnveloped_def memoizedGetEnvelopedFactory_def getEnvelopedByContext_def Let_def)

lemma getEnveloped_unknown:
  assumes "rt_factories rt pl = None"
  shows "getEnveloped pl c rt
           = (\<lparr>pl_id = Suc (rt_next rt), pl_plugins = pl, pl_initialContext = c\<rparr>,
              rt\<lparr>rt_factories := (rt_factories rt)(pl \<mapsto> rt_next rt),
                 rt_closures :=
                   (rt_closures rt)
                     (rt_next rt :=
                        \<lparr>bc_plugins = pl,
                         bc_cache = [c \<mapsto> \<lparr>pl_id = Suc (rt_next rt), pl_plugins = pl,
                                               pl_initialContext = c\<rparr>]\<rparr>),
                 rt_next := Suc (Suc (rt_next rt))\<rparr>)"
  using assms
  by (simp add: getEnveloped_def memoizedGetEnvelopedFactory_def getEnvelopedFactory_def
        getEnvelopedByContext_def newPipeline_def Let_def)

lemma runtime_invI:
  assumes "\<And>pl f. rt_factories rt pl = Some f \<Longrightarrow>
             f < rt_next rt \<and> bc_plugins (rt_closures rt f) = pl"
      and "\<And>pl c p. cached rt pl c = Some p \<Longrightarrow>
             pl_id p < rt_next rt \<and> pl_plugins p = pl \<and> pl_initialContext p = c"
      and "\<And>pl c p pl' c' p'. cached rt pl c = Some p \<Longrightarrow> cached rt pl' c' = Some p' \<Longrightarrow>
             pl_id p = pl_id p' \<Longrightarrow> pl = pl' \<and> c = c'"
      and "\<And>call. call \<in> set (rt_calls rt) \<Longrightarrow>
             cached rt (pl_plugins (pc_pipeline call)) (pl_initialContext (pc_pipeline call))
               = Some (pc_pipeline call)"
  shows "runtime_inv rt"
  unfolding runtime_inv_def using assms by blast

lemma runtime_inv_factory:
  assumes "runtime_inv rt" and "rt_factories rt pl = Some f"
  shows "f < rt_next rt" and "bc_plugins (rt_closures rt f) = pl"
  using assms unfolding runtime_inv_def by blast+

lemma runtime_inv_key:
  assumes "runtime_inv rt" and "cached rt pl c = Some p"
  shows "pl_id p < rt_next rt" and "pl_plugins p = pl" and "pl_initialContext p = c"
  using assms unfolding runtime_inv_def by blast+

lemma runtime_inv_inj:
  assumes "runtime_inv rt" and "cached rt pl c = Some p" and "cached rt pl' c' = Some p'"
      and "pl_id p = pl_id p'"
  shows "pl = pl' \<and> c = c'"
  using assms unfolding runtime_inv_def by blast

lemma runtime_inv_log:
  assumes "runtime_inv rt" and "call \<in> set (rt_calls rt)"
  shows "cached rt (pl_plugins (pc_pipeline call)) (pl_initialContext (pc_pipeline call))
           = Some (pc_pipeline call)"
  using assms unfolding runtime_inv_def by blast

lemma getEnveloped_miss:
  assumes inv: "runtime_inv rt" and miss: "cached rt pl c = None"
  shows "pl_plugins (fst (getEnveloped pl c rt)) = pl"
    and "pl_initialContext (fst (getEnveloped pl c rt)) = c"
    and "rt_next rt \<le> pl_id (fst (getEnveloped pl c rt))"
    and "pl_id (fst (getEnveloped pl c rt)) < rt_next (snd (getEnveloped pl c rt))"
    and "rt_calls (snd (getEnveloped pl c rt)) = rt_calls rt"
    and "rt_operationTypes (snd (getEnveloped pl c rt)) = rt_operationTypes rt"
    and "cached (snd (getEnveloped pl c rt)) pl' c'
           = (if pl' = pl \<and> c' = c then Some (fst (getEnveloped pl c rt)) else cached rt pl' c')"
    and "rt_factories (snd (getEnveloped pl c rt)) pl' = Some f' \<Longrightarrow>
           f' < rt_next (snd (getEnveloped pl c rt))
           \<and> bc_plugins (rt_closures (snd (getEnveloped pl c rt)) f') = pl'"
proof -
  have all: "pl_plugins (fst (getEnveloped pl c rt)) = pl
    \<and> pl_initialContext (fst (getEnveloped pl c rt)) = c
    \<and> rt_next rt \<le> pl_id (fst (getEnveloped pl c rt))
    \<and> pl_id (fst (getEnveloped pl c rt)) < rt_next (snd (getEnveloped pl c rt))
    \<and> rt_calls (snd (getEnveloped pl c rt)) = rt_calls rt
    \<and> rt_operationTypes (snd (getEnveloped pl c rt)) = rt_operationTypes rt
    \<and> cached (snd (getEnveloped pl c rt)) pl' c'
           = (if pl' = pl \<and> c' = c then Some (fst (getEnveloped pl c rt)) else cached rt pl' c')
    \<and> (rt_factories (snd (getEnveloped pl c rt)) pl' = Some f' \<longrightarrow>
           f' < rt_next (snd (getEnveloped pl c rt))
           \<and> bc_plugins (rt_closures (snd (getEnveloped pl c rt)) f') = pl')"
  proof (cases "rt_factories rt pl")
    case None
    note run = getEnveloped_unknown[OF None, of c]
    have other: "rt_factories rt pl' = Some g \<Longrightarrow> g \<noteq> rt_next rt" for g
      using runtime_inv_factory(1)[OF inv, of pl' g] by simp
    have c7: "cached (snd (getEnveloped pl c rt)) pl' c'
           = (if pl' = pl \<and> c' = c then Some (fst (getEnveloped pl c rt)) else cached rt pl' c')"
    proof (cases "pl' = pl")
      case True
      then show ?thesis unfolding run using None by (simp add: cached_def)
    next
      case False
      show ?thesis
      proof (cases "rt_factories rt pl'")
        case n: None
        with False show ?thesis unfolding run by (simp add: cached_def)
      next
        case (Some g)
        with False other[OF Some] show ?thesis unfolding run by (simp add: cached_def)
      qed
    qed
    have c8: "rt_factories (snd (getEnveloped pl c rt)) pl' = Some f' \<longrightarrow>
           f' < rt_next (snd (getEnveloped pl c rt))
           \<and> bc_plugins (rt_closures (snd (getEnveloped pl c rt)) f') = pl'"
    proof (cases "pl' = pl")
      case True
      then show ?thesis unfolding run by simp
    next
      case False
      show ?thesis
      proof
        assume "rt_factories (snd (getEnveloped pl c rt)) pl' = Some f'"
        with False have old: "rt_factories rt pl' = Some f'" unfolding run by simp
        from runtime_inv_factory[OF inv old] other[OF old]
        show "f' < rt_next (snd (getEnveloped pl c rt))
           \<and> bc_plugins (rt_closures (snd (getEnveloped pl c rt)) f') = pl'"
          unfolding run by simp
      qed
    qed
    have rest: "pl_plugins (fst (getEnveloped pl c rt)) = pl"
      "pl_initialContext (fst (getEnveloped pl c rt)) = c"
      "rt_next rt \<le> pl_id (fst (getEnveloped pl c rt))"
      "pl_id (fst (getEnveloped pl c rt)) < rt_next (snd (getEnveloped pl c rt))"
      "rt_calls (snd (getEnveloped pl c rt)) = rt_calls rt"
      "rt_operationTypes (snd (getEnveloped pl c rt)) = rt_operationTypes rt"
      unfolding run by simp_all
    from rest c7 c8 show ?thesis by blast
  next
    case (Some f)
    from miss Some have m: "bc_cache (rt_closures rt f) c = None" by (simp add: cached_def)
    note run = getEnveloped_known[OF Some m]
    note fac = runtime_inv_factory[OF inv Some]
    have same: "rt_factories rt pl' = Some f \<Longrightarrow> pl' = pl"
      using runtime_inv_factory(2)[OF inv, of pl' f] fac(2) by simp
    have c7: "cached (snd (getEnveloped pl c rt)) pl' c'
           = (if pl' = pl \<and> c' = c then Some (fst (getEnveloped pl c rt)) else cached rt pl' c')"
    proof (cases "rt_factories rt pl'")
      case None
      with Some have "pl' \<noteq> pl" by auto
      with None show ?thesis unfolding run by (simp add: cached_def)
    next
      case g: (Some g)
      show ?thesis
      proof (cases "g = f")
        case True
        with g same have "pl' = pl" by simp
        with Some show ?thesis unfolding run by (simp add: cached_def)
      next
        case False
        with g Some have "pl' \<noteq> pl" by auto
        with g False show ?thesis unfolding run by (simp add: cached_def)
      qed
    qed
    have c8: "rt_factories (snd (getEnveloped pl c rt)) pl' = Some f' \<longrightarrow>
           f' < rt_next (snd (getEnveloped pl c rt))
           \<and> bc_plugins (rt_closures (snd (getEnveloped pl c rt)) f') = pl'"
    proof
      assume "rt_factories (snd (getEnveloped pl c rt)) pl' = Some f'"
      then have old: "rt_factories rt pl' = Some f'" unfolding run by simp
      from runtime_inv_factory[OF inv old]
      show "f' < rt_next (snd (getEnveloped pl c rt))
           \<and> bc_plugins (rt_closures (snd (getEnveloped pl c rt)) f') = pl'"
        unfolding run by auto
    qed
    have rest: "pl_plugins (fst (getEnveloped pl c rt)) = pl"
      "pl_initialContext (fst (getEnveloped pl c rt)) = c"
      "rt_next rt \<le> pl_id (fst (getEnveloped pl c rt))"
      "pl_id (fst (getEnveloped pl c rt)) < rt_next (snd (getEnveloped pl c rt))"
      "rt_calls (snd (getEnveloped pl c rt)) = rt_calls rt"
      "rt_operationTypes (snd (getEnveloped pl c rt)) = rt_operationTypes rt"
      unfolding run using fac(2) by (simp_all add: newPipeline_def)
    from rest c7 c8 show ?thesis by blast
  qed
  from all show "pl_plugins (fst (getEnveloped pl c rt)) = pl" by blast
  from all show "pl_initialContext (fst (getEnveloped pl c rt)) = c" by blast
  from all show "rt_next rt \<le> pl_id (fst (getEnveloped pl c rt))" by blast
  from all show "pl_id (fst (getEnveloped pl c rt)) < rt_next (snd (getEnveloped pl c rt))" by blast
  from all show "rt_calls (snd (getEnveloped pl c rt)) = rt_calls rt" by blast
  from all show "rt_operationTypes (snd (getEnveloped pl c rt)) = rt_operationTypes rt" by blast
  from all show "cached (snd (getEnveloped pl c rt)) pl' c'
           = (if pl' = pl \<and> c' = c then Some (fst (getEnveloped pl c rt)) else cached rt pl' c')"
    by blast
  from all show "rt_factories (snd (getEnveloped pl c rt)) pl' = Some f' \<Longrightarrow>
           f' < rt_next (snd (getEnveloped pl c rt))
           \<and> bc_plugins (rt_closures (snd (getEnveloped pl c rt)) f') = pl'"
    by blast
qed

lemma getEnveloped_cached:
  assumes inv: "runtime_inv rt"
  shows "cached (snd (getEnveloped pl c rt)) pl c = Some (fst (getEnveloped pl c rt))"
proof (cases "cached rt pl c")
  case None
  from getEnveloped_miss(7)[OF inv None, of pl c] show ?thesis by simp
next
  case (Some q)
  from getEnveloped_hit[OF Some] Some show ?thesis by simp
qed

lemma getEnveloped_mono:
  assumes inv: "runtime_inv rt" and "cached rt pl' c' = Some q"
  shows "cached (snd (getEnveloped pl c rt)) pl' c' = Some q"
proof (cases "cached rt pl c")
  case None
  with assms have "\<not> (pl' = pl \<and> c' = c)" by auto
  with getEnveloped_miss(7)[OF inv None, of pl' c'] assms show ?thesis by simp
next
  case (Some q')
  from getEnveloped_hit[OF Some] assms show ?thesis by simp
qed

lemma getEnveloped_calls:
  assumes inv: "runtime_inv rt"
  shows "rt_calls (snd (getEnveloped pl c rt)) = rt_calls rt"
proof (cases "cached rt pl c")
  case None
  from getEnveloped_miss(5)[OF inv None] show ?thesis .
next
  case (Some q)
  from getEnveloped_hit[OF Some] show ?thesis by simp
qed

lemma getEnveloped_inv:
  assumes inv: "runtime_inv rt"
  shows "runtime_inv (snd (getEnveloped pl c rt))"
proof (cases "cached rt pl c")
  case (Some q)
  from getEnveloped_hit[OF Some] inv show ?thesis by simp
next
  case None
  let ?rt = "snd (getEnveloped pl c rt)"
  let ?p = "fst (getEnveloped pl c rt)"
  note m = getEnveloped_miss[OF inv None]
  show ?thesis
  proof (rule runtime_invI)
    fix pl1 f1 assume "rt_factories ?rt pl1 = Some f1"
    from m(8)[OF this] show "f1 < rt_next ?rt \<and> bc_plugins (rt_closures ?rt f1) = pl1" .
  next
    fix pl1 c1 p1 assume a: "cached ?rt pl1 c1 = Some p1"
    show "pl_id p1 < rt_next ?rt \<and> pl_plugins p1 = pl1 \<and> pl_initialContext p1 = c1"
    proof (cases "pl1 = pl \<and> c1 = c")
      case True
      with a m(7)[of pl1 c1] have "p1 = ?p" by simp
      with True m(1,2,4) show ?thesis by simp
    next
      case False
      with a m(7)[of pl1 c1] have "cached rt pl1 c1 = Some p1" by simp
      from runtime_inv_key[OF inv this] m(3,4) show ?thesis by simp
    qed
  next
    fix pl1 c1 p1 pl2 c2 p2
    assume a1: "cached ?rt pl1 c1 = Some p1" and a2: "cached ?rt pl2 c2 = Some p2"
      and ids: "pl_id p1 = pl_id p2"
    show "pl1 = pl2 \<and> c1 = c2"
    proof (cases "pl1 = pl \<and> c1 = c")
      case k1: True
      with a1 m(7)[of pl1 c1] have p1: "p1 = ?p" by simp
      show ?thesis
      proof (cases "pl2 = pl \<and> c2 = c")
        case True
        with k1 show ?thesis by simp
      next
        case False
        with a2 m(7)[of pl2 c2] have "cached rt pl2 c2 = Some p2" by simp
        from runtime_inv_key(1)[OF inv this] ids p1 m(3) show ?thesis by simp
      qed
    next
      case k1: False
      with a1 m(7)[of pl1 c1] have o1: "cached rt pl1 c1 = Some p1" by simp
      show ?thesis
      proof (cases "pl2 = pl \<and> c2 = c")
        case True
        with a2 m(7)[of pl2 c2] have "p2 = ?p" by simp
        with runtime_inv_key(1)[OF inv o1] ids m(3) show ?thesis by simp
      next
        case False
        with a2 m(7)[of pl2 c2] have "cached rt pl2 c2 = Some p2" by simp
        from runtime_inv_inj[OF inv o1 this ids] show ?thesis .
      qed
    qed
  next
    fix call assume "call \<in> set (rt_calls ?rt)"
    then have "call \<in> set (rt_calls rt)" by (simp add: m(5))
    from runtime_inv_log[OF inv this]
    show "cached ?rt (pl_plugins (pc_pipeline call)) (pl_initialContext (pc_pipeline call))
            = Some (pc_pipeline call)"
      by (rule getEnveloped_mono[OF inv])
  qed
qed

lemma cached_calls_update:
  "cached (rt\<lparr>rt_calls := cs\<rparr>) pl c = cached rt pl c"
  by (cases "rt_factories rt pl") (simp_all add: cached_def)

lemma meshExecute_runtime:
  assumes inv: "runtime_inv rt"
  shows "snd (meshExecute g (DocumentNode d) v ctx r n rt)
     = (snd (getEnveloped (g_plugins g)
               (fst (case ctx of None \<Rightarrow> g_EMPTY_CONTEXT_VALUE g | Some c \<Rightarrow> c)) rt))
         \<lparr>rt_calls := rt_calls rt
            @ [\<lparr>pc_entry = ViaExecute,
                 pc_pipeline = fst (getEnveloped (g_plugins g)
                                      (fst (case ctx of None \<Rightarrow> g_EMPTY_CONTEXT_VALUE g | Some c \<Rightarrow> c)) rt),
                 pc_args = executionArgs g
                   (fst (getEnveloped (g_plugins g)
                           (fst (case ctx of None \<Rightarrow> g_EMPTY_CONTEXT_VALUE g | Some c \<Rightarrow> c)) rt))
                   d v (case ctx of None \<Rightarrow> g_EMPTY_CONTEXT_VALUE g | Some c \<Rightarrow> c) r n\<rparr>]\<rparr>"
proof -
  obtain p rt1 where
    ge: "getEnveloped (g_plugins g)
           (fst (case ctx of None \<Rightarrow> g_EMPTY_CONTEXT_VALUE g | Some c \<Rightarrow> c)) rt = (p, rt1)"
    by (cases "getEnveloped (g_plugins g)
           (fst (case ctx of None \<Rightarrow> g_EMPTY_CONTEXT_VALUE g | Some c \<Rightarrow> c)) rt")
  from getEnveloped_calls[OF inv, of "g_plugins g"
      "fst (case ctx of None \<Rightarrow> g_EMPTY_CONTEXT_VALUE g | Some c \<Rightarrow> c)"] ge
  have "rt_calls rt1 = rt_calls rt" by simp
  with ge show ?thesis by (simp add: meshExecute_def Let_def)
qed

lemma meshSubscribe_runtime:
  assumes inv: "runtime_inv rt"
  shows "snd (meshSubscribe g (DocumentNode d) v ctx r n rt)
     = (snd (getEnveloped (g_plugins g)
               (fst (case ctx of None \<Rightarrow> g_EMPTY_CONTEXT_VALUE g | Some c \<Rightarrow> c)) rt))
         \<lparr>rt_calls := rt_calls rt
            @ [\<lparr>pc_entry = ViaSubscribe,
                 pc_pipeline = fst (getEnveloped (g_plugins g)
                                      (fst (case ctx of None \<Rightarrow> g_EMPTY_CONTEXT_VALUE g | Some c \<Rightarrow> c)) rt),
                 pc_args = executionArgs g
                   (fst (getEnveloped (g_plugins g)
                           (fst (case ctx of None \<Rightarrow> g_EMPTY_CONTEXT_VALUE g | Some c \<Rightarrow> c)) rt))
                   d v (case ctx of None \<Rightarrow> g_EMPTY_CONTEXT_VALUE g | Some c \<Rightarrow> c) r n\<rparr>]\<rparr>"
proof -
  obtain p rt1 where
    ge: "getEnveloped (g_plugins g)
           (fst (case ctx of None \<Rightarrow> g_EMPTY_CONTEXT_VALUE g | Some c \<Rightarrow> c)) rt = (p, rt1)"
    by (cases "getEnveloped (g_plugins g)
           (fst (case ctx of None \<Rightarrow> g_EMPTY_CONTEXT_VALUE g | Some c \<Rightarrow> c)) rt")
  from getEnveloped_calls[OF inv, of "g_plugins g"
      "fst (case ctx of None \<Rightarrow> g_EMPTY_CONTEXT_VALUE g | Some c \<Rightarrow> c)"] ge
  have "rt_calls rt1 = rt_calls rt" by simp
  with ge show ?thesis by (simp add: meshSubscribe_def Let_def)
qed

lemma contextIdentity_alt:
  "contextIdentity rq
     = fst (case mr_contextValue rq of None \<Rightarrow> g_EMPTY_CONTEXT_VALUE (mr_gateway rq) | Some c \<Rightarrow> c)"
  by (cases "mr_contextValue rq") (simp_all add: contextIdentity_def)

text \<open>The arguments a call hands to its pipeline: the context is what the pipeline's own
  context factory makes of the context value the call was made with.\<close>

lemma executionArgs_fields:
  "executionArgs g p d v ctx r n
     = \<lparr>ea_document = d,
        ea_contextValue = g_contextFactory g p (snd ctx),
        ea_rootValue = (case r of None \<Rightarrow> JObj [] | Some x \<Rightarrow> x),
        ea_variableValues = (case v of None \<Rightarrow> JObj [] | Some x \<Rightarrow> x),
        ea_operationName = n\<rparr>"
  by (simp add: executionArgs_def)

lemma meshCall_runtime:
  assumes inv: "runtime_inv rt"
  shows "meshCall rq rt
     = (snd (getEnveloped (g_plugins (mr_gateway rq)) (contextIdentity rq) rt))
         \<lparr>rt_calls := rt_calls rt
            @ [\<lparr>pc_entry = mr_entry rq,
                 pc_pipeline = fst (getEnveloped (g_plugins (mr_gateway rq)) (contextIdentity rq) rt),
                 pc_args = executionArgs (mr_gateway rq)
                   (fst (getEnveloped (g_plugins (mr_gateway rq)) (contextIdentity rq) rt))
                   (mr_document rq) (mr_variableValues rq)
                   (case mr_contextValue rq of
                      None \<Rightarrow> g_EMPTY_CONTEXT_VALUE (mr_gateway rq) | Some c \<Rightarrow> c)
                   (mr_rootValue rq) (mr_operationName rq)\<rparr>]\<rparr>"
proof (cases "mr_entry rq")
  case ViaExecute
  then show ?thesis
    using meshExecute_runtime[OF inv, of "mr_gateway rq" "mr_document rq" "mr_variableValues rq"
            "mr_contextValue rq" "mr_rootValue rq" "mr_operationName rq"]
    by (simp add: meshCall_def contextIdentity_alt)
next
  case ViaSubscribe
  then show ?thesis
    using meshSubscribe_runtime[OF inv, of "mr_gateway rq" "mr_document rq" "mr_variableValues rq"
            "mr_contextValue rq" "mr_rootValue rq" "mr_operationName rq"]
    by (simp add: meshCall_def contextIdentity_alt)
qed

lemma meshCall_step:
  assumes inv: "runtime_inv rt"
  shows "runtime_inv (meshCall rq rt)"
    and "\<exists>call. rt_calls (meshCall rq rt) = rt_calls rt @ [call] \<and> servedBy rq call"
proof -
  let ?pl = "g_plugins (mr_gateway rq)"
  let ?c = "contextIdentity rq"
  let ?rt1 = "snd (getEnveloped ?pl ?c rt)"
  let ?p = "fst (getEnveloped ?pl ?c rt)"
  let ?args = "executionArgs (mr_gateway rq) ?p (mr_document rq) (mr_variableValues rq)
                   (case mr_contextValue rq of
                      None \<Rightarrow> g_EMPTY_CONTEXT_VALUE (mr_gateway rq) | Some c \<Rightarrow> c)
                   (mr_rootValue rq) (mr_operationName rq)"
  let ?call = "\<lparr>pc_entry = mr_entry rq, pc_pipeline = ?p, pc_args = ?args\<rparr>"
  have run: "meshCall rq rt = ?rt1\<lparr>rt_calls := rt_calls rt @ [?call]\<rparr>"
    by (rule meshCall_runtime[OF inv])
  have inv1: "runtime_inv ?rt1" by (rule getEnveloped_inv[OF inv])
  have hit: "cached ?rt1 ?pl ?c = Some ?p" by (rule getEnveloped_cached[OF inv])
  note key = runtime_inv_key[OF inv1 hit]
  show "runtime_inv (meshCall rq rt)"
    unfolding run
  proof (rule runtime_invI)
    fix pl1 f1
    assume "rt_factories (?rt1\<lparr>rt_calls := rt_calls rt @ [?call]\<rparr>) pl1 = Some f1"
    then have "rt_factories ?rt1 pl1 = Some f1" by simp
    from runtime_inv_factory[OF inv1 this]
    show "f1 < rt_next (?rt1\<lparr>rt_calls := rt_calls rt @ [?call]\<rparr>)
            \<and> bc_plugins (rt_closures (?rt1\<lparr>rt_calls := rt_calls rt @ [?call]\<rparr>) f1) = pl1"
      by simp
  next
    fix pl1 c1 p1
    assume "cached (?rt1\<lparr>rt_calls := rt_calls rt @ [?call]\<rparr>) pl1 c1 = Some p1"
    then have "cached ?rt1 pl1 c1 = Some p1" by (simp add: cached_calls_update)
    from runtime_inv_key[OF inv1 this]
    show "pl_id p1 < rt_next (?rt1\<lparr>rt_calls := rt_calls rt @ [?call]\<rparr>)
            \<and> pl_plugins p1 = pl1 \<and> pl_initialContext p1 = c1"
      by simp
  next
    fix pl1 c1 p1 pl2 c2 p2
    assume "cached (?rt1\<lparr>rt_calls := rt_calls rt @ [?call]\<rparr>) pl1 c1 = Some p1"
       and "cached (?rt1\<lparr>rt_calls := rt_calls rt @ [?call]\<rparr>) pl2 c2 = Some p2"
       and ids: "pl_id p1 = pl_id p2"
    then have "cached ?rt1 pl1 c1 = Some p1" "cached ?rt1 pl2 c2 = Some p2"
      by (simp_all add: cached_calls_update)
    from runtime_inv_inj[OF inv1 this ids] show "pl1 = pl2 \<and> c1 = c2" .
  next
    fix call
    assume "call \<in> set (rt_calls (?rt1\<lparr>rt_calls := rt_calls rt @ [?call]\<rparr>))"
    then have "call \<in> set (rt_calls rt) \<or> call = ?call"
      by auto
    then have "cached ?rt1 (pl_plugins (pc_pipeline call)) (pl_initialContext (pc_pipeline call))
                 = Some (pc_pipeline call)"
    proof
      assume "call \<in> set (rt_calls rt)"
      from runtime_inv_log[OF inv this] show ?thesis by (rule getEnveloped_mono[OF inv])
    next
      assume "call = ?call"
      then have "pc_pipeline call = ?p" by simp
      with hit key show ?thesis by simp
    qed
    then show "cached (?rt1\<lparr>rt_calls := rt_calls rt @ [?call]\<rparr>)
                 (pl_plugins (pc_pipeline call)) (pl_initialContext (pc_pipeline call))
                 = Some (pc_pipeline call)"
      by (simp add: cached_calls_update)
  qed
  have "servedBy rq ?call"
    using key by (simp add: servedBy_def executionArgs_fields)
  then show "\<exists>call. rt_calls (meshCall rq rt) = rt_calls rt @ [call] \<and> servedBy rq call"
    unfolding run by simp
qed

lemma meshCalls_snoc: "meshCalls (requests @ [rq]) rt = meshCall rq (meshCalls requests rt)"
  by (simp add: meshCalls_def)

lemma meshCalls_log:
  assumes "runtime_inv rt0" and "rt_calls rt0 = []"
  shows "runtime_inv (meshCalls requests rt0)
         \<and> length (rt_calls (meshCalls requests rt0)) = length requests
         \<and> (\<forall>i<length requests. servedBy (requests ! i) (rt_calls (meshCalls requests rt0) ! i))"
proof (induction requests rule: rev_induct)
  case Nil
  show ?case using assms by (simp add: meshCalls_def)
next
  case (snoc rq requests)
  let ?rt = "meshCalls requests rt0"
  from snoc.IH have inv: "runtime_inv ?rt" and len: "length (rt_calls ?rt) = length requests"
    and old: "\<forall>i<length requests. servedBy (requests ! i) (rt_calls ?rt ! i)"
    by simp_all
  from meshCall_step(2)[OF inv, of rq] obtain call where
    calls: "rt_calls (meshCall rq ?rt) = rt_calls ?rt @ [call]"
    and call: "servedBy rq call"
    by blast
  have "runtime_inv (meshCalls (requests @ [rq]) rt0)"
    unfolding meshCalls_snoc by (rule meshCall_step(1)[OF inv])
  moreover have "length (rt_calls (meshCalls (requests @ [rq]) rt0)) = length (requests @ [rq])"
    unfolding meshCalls_snoc calls using len by simp
  moreover have "\<forall>i<length (requests @ [rq]).
       servedBy ((requests @ [rq]) ! i) (rt_calls (meshCalls (requests @ [rq]) rt0) ! i)"
    unfolding meshCalls_snoc calls
    using len old call by (auto simp: nth_append less_Suc_eq)
  ultimately show ?case by blast
qed

lemma initialRuntime_inv: "runtime_inv initialRuntime" "rt_calls initialRuntime = []"
  by (simp_all add: runtime_inv_def cached_def initialRuntime_def)

text \<open>
  C9. Take any sequence of calls of \<^verbatim>\<open>execute\<close> and \<^verbatim>\<open>subscribe\<close> made since the module
  was loaded, and two of them on gateways of the same plugin list. Each call is served by
  a pipeline built from that plugin list and bound to the context object the call was made
  with, and the context it hands to the execution is the one that pipeline's own context
  factory makes of the call's own context value. If the two calls were made with the same
  context object, they are served by the same pipeline instance; if they were made with
  two distinct objects, equal by value or not, they are served by pipelines of distinct
  identities, each bound to its own object.
\<close>

theorem pipeline_per_context_identity:
  assumes "log = rt_calls (meshCalls requests initialRuntime)"
      and "i < length requests" and "j < length requests"
      and "g_plugins (mr_gateway (requests ! i)) = g_plugins (mr_gateway (requests ! j))"
  shows "length log = length requests
         \<and> pc_entry (log ! i) = mr_entry (requests ! i)
         \<and> pl_plugins (pc_pipeline (log ! i)) = g_plugins (mr_gateway (requests ! i))
         \<and> pl_initialContext (pc_pipeline (log ! i)) = contextIdentity (requests ! i)
         \<and> pc_args (log ! i)
             = \<lparr>ea_document = mr_document (requests ! i),
                ea_contextValue =
                  g_contextFactory (mr_gateway (requests ! i)) (pc_pipeline (log ! i))
                    (snd (case mr_contextValue (requests ! i) of
                            None \<Rightarrow> g_EMPTY_CONTEXT_VALUE (mr_gateway (requests ! i))
                          | Some c \<Rightarrow> c)),
                ea_rootValue = (case mr_rootValue (requests ! i) of None \<Rightarrow> JObj [] | Some x \<Rightarrow> x),
                ea_variableValues =
                  (case mr_variableValues (requests ! i) of None \<Rightarrow> JObj [] | Some x \<Rightarrow> x),
                ea_operationName = mr_operationName (requests ! i)\<rparr>
         \<and> (contextIdentity (requests ! i) = contextIdentity (requests ! j)
              \<longrightarrow> pc_pipeline (log ! i) = pc_pipeline (log ! j))
         \<and> (contextIdentity (requests ! i) \<noteq> contextIdentity (requests ! j)
              \<longrightarrow> pl_id (pc_pipeline (log ! i)) \<noteq> pl_id (pc_pipeline (log ! j)))"
proof -
  let ?rt = "meshCalls requests initialRuntime"
  from meshCalls_log[OF initialRuntime_inv, of requests]
  have inv: "runtime_inv ?rt" and len: "length log = length requests"
    and entries: "\<forall>k<length requests. servedBy (requests ! k) (log ! k)"
    unfolding assms(1) by simp_all
  from entries assms(2) have si: "servedBy (requests ! i) (log ! i)" by simp
  from entries assms(3) have sj: "servedBy (requests ! j) (log ! j)" by simp
  from si have ei: "pc_entry (log ! i) = mr_entry (requests ! i)"
    and pi: "pl_plugins (pc_pipeline (log ! i)) = g_plugins (mr_gateway (requests ! i))"
    and ci: "pl_initialContext (pc_pipeline (log ! i)) = contextIdentity (requests ! i)"
    and ai: "pc_args (log ! i)
             = \<lparr>ea_document = mr_document (requests ! i),
                ea_contextValue =
                  g_contextFactory (mr_gateway (requests ! i)) (pc_pipeline (log ! i))
                    (snd (case mr_contextValue (requests ! i) of
                            None \<Rightarrow> g_EMPTY_CONTEXT_VALUE (mr_gateway (requests ! i))
                          | Some c \<Rightarrow> c)),
                ea_rootValue = (case mr_rootValue (requests ! i) of None \<Rightarrow> JObj [] | Some x \<Rightarrow> x),
                ea_variableValues =
                  (case mr_variableValues (requests ! i) of None \<Rightarrow> JObj [] | Some x \<Rightarrow> x),
                ea_operationName = mr_operationName (requests ! i)\<rparr>"
    unfolding servedBy_def by blast+
  from sj have pj: "pl_plugins (pc_pipeline (log ! j)) = g_plugins (mr_gateway (requests ! j))"
    and cj: "pl_initialContext (pc_pipeline (log ! j)) = contextIdentity (requests ! j)"
    unfolding servedBy_def by blast+
  have "log ! i \<in> set (rt_calls ?rt)" "log ! j \<in> set (rt_calls ?rt)"
    using assms(1,2,3) len by simp_all
  from runtime_inv_log[OF inv this(1)] runtime_inv_log[OF inv this(2)]
  have hi: "cached ?rt (g_plugins (mr_gateway (requests ! i))) (contextIdentity (requests ! i))
              = Some (pc_pipeline (log ! i))"
    and hj: "cached ?rt (g_plugins (mr_gateway (requests ! j))) (contextIdentity (requests ! j))
              = Some (pc_pipeline (log ! j))"
    by (simp_all add: pi ci pj cj)
  have same: "contextIdentity (requests ! i) = contextIdentity (requests ! j)
              \<longrightarrow> pc_pipeline (log ! i) = pc_pipeline (log ! j)"
    using hi hj assms(4) by auto
  have distinct: "contextIdentity (requests ! i) \<noteq> contextIdentity (requests ! j)
              \<longrightarrow> pl_id (pc_pipeline (log ! i)) \<noteq> pl_id (pc_pipeline (log ! j))"
    using runtime_inv_inj[OF inv hi hj] by blast
  from len ei pi ci ai same distinct show ?thesis by blast
qed

theorem pipeline_per_context_identity_witness:
  "length (rt_calls (meshCalls ex_requests initialRuntime)) = 3
   \<and> pc_pipeline (rt_calls (meshCalls ex_requests initialRuntime) ! 0)
       = pc_pipeline (rt_calls (meshCalls ex_requests initialRuntime) ! 2)
   \<and> pl_id (pc_pipeline (rt_calls (meshCalls ex_requests initialRuntime) ! 0))
       \<noteq> pl_id (pc_pipeline (rt_calls (meshCalls ex_requests initialRuntime) ! 1))
   \<and> pl_initialContext (pc_pipeline (rt_calls (meshCalls ex_requests initialRuntime) ! 0)) = 5
   \<and> pl_initialContext (pc_pipeline (rt_calls (meshCalls ex_requests initialRuntime) ! 1)) = 6
   \<and> ea_contextValue (pc_args (rt_calls (meshCalls ex_requests initialRuntime) ! 1))
       = JObj [(''user'', JStr ''ann'')]
   \<and> map_option snd (mr_contextValue (ex_requests ! 0)) = map_option snd (mr_contextValue (ex_requests ! 1))"
proof -
  have l: "(0::nat) < length ex_requests" "(1::nat) < length ex_requests" "(2::nat) < length ex_requests"
    by (simp_all add: ex_requests_def)
  have g: "g_plugins (mr_gateway (ex_requests ! 0)) = g_plugins (mr_gateway (ex_requests ! 2))"
    "g_plugins (mr_gateway (ex_requests ! 0)) = g_plugins (mr_gateway (ex_requests ! 1))"
    "g_plugins (mr_gateway (ex_requests ! 1)) = g_plugins (mr_gateway (ex_requests ! 0))"
    by (simp_all add: ex_requests_def ex_request_def)
  have c: "contextIdentity (ex_requests ! 0) = 5" "contextIdentity (ex_requests ! 1) = 6"
    "contextIdentity (ex_requests ! 2) = 5"
    by (simp_all add: ex_requests_def ex_request_def contextIdentity_def)
  have v: "g_contextFactory (mr_gateway (ex_requests ! 1)) p
             (snd (case mr_contextValue (ex_requests ! 1) of
                     None \<Rightarrow> g_EMPTY_CONTEXT_VALUE (mr_gateway (ex_requests ! 1))
                   | Some c \<Rightarrow> c))
           = JObj [(''user'', JStr ''ann'')]" for p
    by (simp add: ex_requests_def ex_request_def ex_gateway_def)
  note a = pipeline_per_context_identity[OF refl l(1) l(3) g(1)]
  note b = pipeline_per_context_identity[OF refl l(1) l(2) g(2)]
  note d = pipeline_per_context_identity[OF refl l(2) l(1) g(3)]
  from d have "ea_contextValue (pc_args (rt_calls (meshCalls ex_requests initialRuntime) ! 1))
       = g_contextFactory (mr_gateway (ex_requests ! 1))
           (pc_pipeline (rt_calls (meshCalls ex_requests initialRuntime) ! 1))
           (snd (case mr_contextValue (ex_requests ! 1) of
                     None \<Rightarrow> g_EMPTY_CONTEXT_VALUE (mr_gateway (ex_requests ! 1))
                   | Some c \<Rightarrow> c))"
    by simp
  then have e: "ea_contextValue (pc_args (rt_calls (meshCalls ex_requests initialRuntime) ! 1))
       = JObj [(''user'', JStr ''ann'')]"
    unfolding v .
  from a b d c
  have "length (rt_calls (meshCalls ex_requests initialRuntime)) = length ex_requests"
    "pc_pipeline (rt_calls (meshCalls ex_requests initialRuntime) ! 0)
       = pc_pipeline (rt_calls (meshCalls ex_requests initialRuntime) ! 2)"
    "pl_id (pc_pipeline (rt_calls (meshCalls ex_requests initialRuntime) ! 0))
       \<noteq> pl_id (pc_pipeline (rt_calls (meshCalls ex_requests initialRuntime) ! 1))"
    "pl_initialContext (pc_pipeline (rt_calls (meshCalls ex_requests initialRuntime) ! 0)) = 5"
    "pl_initialContext (pc_pipeline (rt_calls (meshCalls ex_requests initialRuntime) ! 1)) = 6"
    by simp_all
  moreover have "length ex_requests = 3"
    "map_option snd (mr_contextValue (ex_requests ! 0)) = map_option snd (mr_contextValue (ex_requests ! 1))"
    by (simp_all add: ex_requests_def ex_request_def)
  ultimately show ?thesis using e by simp
qed

section \<open>Properties of the requester\<close>

lemma collapse_cases:
  "collapse None = Data Undefined"
  "er_errors r = None \<Longrightarrow> collapse (Some r) = Data (er_data r)"
  "er_errors r = Some [] \<Longrightarrow> collapse (Some r) = Data (er_data r)"
  "er_errors r = Some errors \<Longrightarrow> errors \<noteq> [] \<Longrightarrow> collapse (Some r) = AggregateError errors"
  by (simp_all add: collapse_def)

lemma requester_subscription:
  assumes "memoizedGetOperationType document rt = (Inr OpSubscription, rt1)"
      and "newContext (spread globalContext contextValue) rt1 = (context, rt2)"
      and "meshSubscribe g (DocumentNode (snd document)) variables (Some context) None None rt2
             = (outcome, rt3)"
  shows "meshSdkRequester g globalContext document variables contextValue rt
           = (case outcome of
                Rejected e \<Rightarrow> Returns (Rejected e)
              | Fulfilled (AsyncIterable results) \<Rightarrow>
                  Returns (Fulfilled (MappedAsyncIterator (map collapse results)))
              | Fulfilled (SingleResult result) \<Rightarrow> Returns (Fulfilled (Single (collapse result))),
              rt3)"
  using assms
  by (simp add: meshSdkRequester_def async_def split: promise.splits subscription_result.splits)

lemma requester_execution:
  assumes "memoizedGetOperationType document rt = (Inr operationType, rt1)"
      and "operationType \<noteq> OpSubscription"
      and "newContext (spread globalContext contextValue) rt1 = (context, rt2)"
      and "meshExecute g (DocumentNode (snd document)) variables (Some context) None None rt2
             = (outcome, rt3)"
  shows "meshSdkRequester g globalContext document variables contextValue rt
           = (case outcome of
                Rejected e \<Rightarrow> Returns (Rejected e)
              | Fulfilled result \<Rightarrow> Returns (Fulfilled (Single (collapse result))),
              rt3)"
  using assms
  by (simp add: meshSdkRequester_def async_def split: promise.splits)

text \<open>
  C7. When the operation kind of the document is \<^verbatim>\<open>subscription\<close> and the subscription
  gives an async iterable, the requester's promise is fulfilled with the iterable mapped
  by \<open>collapse\<close>: every emitted element is the collapsed form of the result at its
  position. A single result, of a subscription or of an execution, is collapsed once.
  A collapsed result is the aggregate error built from the error list when that list is
  not empty, and the data payload otherwise, never both; the aggregate error is the value
  the promise is fulfilled with, not a rejection.
\<close>

theorem requester_collapses:
  assumes "memoizedGetOperationType document rt = (Inr operationType, rt1)"
      and "newContext (spread globalContext contextValue) rt1 = (context, rt2)"
  shows "(operationType = OpSubscription \<longrightarrow>
            (\<forall>results rt3.
                meshSubscribe g (DocumentNode (snd document)) variables (Some context) None None rt2
                  = (Fulfilled (AsyncIterable results), rt3)
                \<longrightarrow> meshSdkRequester g globalContext document variables contextValue rt
                      = (Returns (Fulfilled (MappedAsyncIterator (map collapse results))), rt3))
            \<and> (\<forall>result rt3.
                meshSubscribe g (DocumentNode (snd document)) variables (Some context) None None rt2
                  = (Fulfilled (SingleResult result), rt3)
                \<longrightarrow> meshSdkRequester g globalContext document variables contextValue rt
                      = (Returns (Fulfilled (Single (collapse result))), rt3)))
       \<and> (operationType \<noteq> OpSubscription \<longrightarrow>
            (\<forall>result rt3.
                meshExecute g (DocumentNode (snd document)) variables (Some context) None None rt2
                  = (Fulfilled result, rt3)
                \<longrightarrow> meshSdkRequester g globalContext document variables contextValue rt
                      = (Returns (Fulfilled (Single (collapse result))), rt3)))
       \<and> collapse None = Data Undefined
       \<and> (\<forall>r::execution_result.
             er_errors r = None \<or> er_errors r = Some [] \<longrightarrow> collapse (Some r) = Data (er_data r))
       \<and> (\<forall>(r::execution_result) errors. er_errors r = Some errors \<and> errors \<noteq> []
             \<longrightarrow> collapse (Some r) = AggregateError errors)"
proof (intro conjI impI allI)
  fix results rt3
  assume "operationType = OpSubscription"
    and "meshSubscribe g (DocumentNode (snd document)) variables (Some context) None None rt2
           = (Fulfilled (AsyncIterable results), rt3)"
  with requester_subscription[OF _ assms(2), of document rt g variables "Fulfilled (AsyncIterable results)" rt3]
    assms(1)
  show "meshSdkRequester g globalContext document variables contextValue rt
          = (Returns (Fulfilled (MappedAsyncIterator (map collapse results))), rt3)"
    by simp
next
  fix result rt3
  assume "operationType = OpSubscription"
    and "meshSubscribe g (DocumentNode (snd document)) variables (Some context) None None rt2
           = (Fulfilled (SingleResult result), rt3)"
  with requester_subscription[OF _ assms(2), of document rt g variables "Fulfilled (SingleResult result)" rt3]
    assms(1)
  show "meshSdkRequester g globalContext document variables contextValue rt
          = (Returns (Fulfilled (Single (collapse result))), rt3)"
    by simp
next
  fix result rt3
  assume "operationType \<noteq> OpSubscription"
    and "meshExecute g (DocumentNode (snd document)) variables (Some context) None None rt2
           = (Fulfilled result, rt3)"
  with requester_execution[OF assms(1) _ assms(2), of g variables "Fulfilled result" rt3]
  show "meshSdkRequester g globalContext document variables contextValue rt
          = (Returns (Fulfilled (Single (collapse result))), rt3)"
    by simp
next
  show "collapse None = Data Undefined" by (rule collapse_cases(1))
next
  fix r :: execution_result assume "er_errors r = None \<or> er_errors r = Some []"
  then show "collapse (Some r) = Data (er_data r)"
    using collapse_cases(2,3) by blast
next
  fix r :: execution_result and errors assume "er_errors r = Some errors \<and> errors \<noteq> []"
  then show "collapse (Some r) = AggregateError errors"
    using collapse_cases(4) by blast
qed

theorem requester_collapses_witness:
  "fst (meshSdkRequester ex_gateway (JObj []) (7, [OperationDefinition OpSubscription None]) None
          Undefined initialRuntime)
     = Returns (Fulfilled (MappedAsyncIterator
                  [Data (JNum 1), AggregateError [''upstream failed''], Data Undefined]))
   \<and> fst (meshSdkRequester ex_gateway (JObj []) (8, [OperationDefinition OpQuery None]) None
            Undefined initialRuntime)
       = Returns (Fulfilled (Single (AggregateError [''upstream failed''])))"
proof -
  let ?sub = "(7, [OperationDefinition OpSubscription None]) :: ref \<times> document"
  let ?qry = "(8, [OperationDefinition OpQuery None]) :: ref \<times> document"
  obtain rt1 where t1: "memoizedGetOperationType ?sub initialRuntime = (Inr OpSubscription, rt1)"
    by (simp add: memoizedGetOperationType_def initialRuntime_def getOperationType_def getOperationAST_def)
  obtain ctx rt2 where c1: "newContext (spread (JObj []) Undefined) rt1 = (ctx, rt2)"
    by (simp add: newContext_def)
  have "fst (meshSubscribe ex_gateway (DocumentNode (snd ?sub)) None (Some ctx) None None rt2)
          = Fulfilled (AsyncIterable ex_results)"
    by (simp add: meshSubscribe_def Let_def ex_gateway_def split: prod.splits)
  then obtain rt3 where s1: "meshSubscribe ex_gateway (DocumentNode (snd ?sub)) None (Some ctx) None None rt2
                          = (Fulfilled (AsyncIterable ex_results), rt3)"
    by (cases "meshSubscribe ex_gateway (DocumentNode (snd ?sub)) None (Some ctx) None None rt2") simp
  obtain rt1' where t2: "memoizedGetOperationType ?qry initialRuntime = (Inr OpQuery, rt1')"
    by (simp add: memoizedGetOperationType_def initialRuntime_def getOperationType_def getOperationAST_def)
  obtain ctx' rt2' where c2: "newContext (spread (JObj []) Undefined) rt1' = (ctx', rt2')"
    by (simp add: newContext_def)
  have "fst (meshExecute ex_gateway (DocumentNode (snd ?qry)) None (Some ctx') None None rt2')
          = Fulfilled (Some \<lparr>er_data = JNum 2, er_errors = Some [''upstream failed'']\<rparr>)"
    by (simp add: meshExecute_def Let_def ex_gateway_def split: prod.splits)
  then obtain rt3' where s2: "meshExecute ex_gateway (DocumentNode (snd ?qry)) None (Some ctx') None None rt2'
                          = (Fulfilled (Some \<lparr>er_data = JNum 2, er_errors = Some [''upstream failed'']\<rparr>), rt3')"
    by (cases "meshExecute ex_gateway (DocumentNode (snd ?qry)) None (Some ctx') None None rt2'") simp
  from requester_collapses[OF t1 c1, of ex_gateway None] s1
  have "meshSdkRequester ex_gateway (JObj []) ?sub None Undefined initialRuntime
          = (Returns (Fulfilled (MappedAsyncIterator (map collapse ex_results))), rt3)"
    by blast
  moreover
  from requester_collapses[OF t2 c2, of ex_gateway None] s2
  have "meshSdkRequester ex_gateway (JObj []) ?qry None Undefined initialRuntime
          = (Returns (Fulfilled (Single (collapse (Some \<lparr>er_data = JNum 2, er_errors = Some [''upstream failed'']\<rparr>)))), rt3')"
    by blast
  ultimately show ?thesis
    by (simp add: ex_results_def collapse_def)
qed

lemma getOperationAST_loop_Some:
  "getOperationAST_loop ds (Some x) = (if filter isOperationDefinition ds = [] then Some x else None)"
proof (induction ds)
  case Nil
  show ?case by simp
next
  case (Cons d ds)
  then show ?case by (cases d) simp_all
qed

lemma getOperationAST_loop_None:
  "(getOperationAST_loop ds None = None) = (length (filter isOperationDefinition ds) \<noteq> 1)"
proof (induction ds)
  case Nil
  show ?case by simp
next
  case (Cons d ds)
  then show ?case by (cases d) (simp_all add: getOperationAST_loop_Some)
qed

lemma getOperationType_invalid:
  assumes "length (filter isOperationDefinition document) \<noteq> 1"
  shows "getOperationType document = Inl (Error ''Must provide document with a valid operation'')"
  using assms getOperationAST_loop_None[of document]
  by (simp add: getOperationType_def getOperationAST_def)

lemma memoized_hit:
  assumes "rt_operationTypes rt r = Some k"
  shows "memoizedGetOperationType (r, content) rt = (Inr k, rt)"
  using assms by (simp add: memoizedGetOperationType_def)

lemma memoized_stores:
  assumes "memoizedGetOperationType document rt = (Inr k, rt')"
  shows "rt_operationTypes rt' (fst document) = Some k"
  using assms
  by (auto simp add: memoizedGetOperationType_def split: option.splits sum.splits)

text \<open>
  C10 (as amended). For a document without exactly one operation definition (none, or
  more than one), not changed since it was last inspected, the requester returns a promise
  rejected with the error "Must provide document with a valid operation"; the requester is
  an async function and throws nothing synchronously. Neither \<^verbatim>\<open>execute\<close> nor
  \<^verbatim>\<open>subscribe\<close> is called and nothing is cached: the state is unchanged. A successful
  inspection is stored under the identity of the document, and every later inspection of
  that identity returns the stored kind, whatever the content.
\<close>

theorem invalid_document_rejected:
  "(length (filter isOperationDefinition (snd document)) \<noteq> 1
      \<and> (\<forall>k. rt_operationTypes rt (fst document) = Some k \<longrightarrow> getOperationType (snd document) = Inr k)
     \<longrightarrow> meshSdkRequester g globalContext document variables contextValue rt
           = (Returns (Rejected (Error ''Must provide document with a valid operation'')), rt))
   \<and> (\<forall>k rt'. memoizedGetOperationType document rt = (Inr k, rt')
         \<longrightarrow> rt_operationTypes rt' (fst document) = Some k
             \<and> (\<forall>content. memoizedGetOperationType (fst document, content) rt' = (Inr k, rt')))"
proof (intro conjI impI allI)
  assume a: "length (filter isOperationDefinition (snd document)) \<noteq> 1
      \<and> (\<forall>k. rt_operationTypes rt (fst document) = Some k \<longrightarrow> getOperationType (snd document) = Inr k)"
  then have invalid: "getOperationType (snd document)
                        = Inl (Error ''Must provide document with a valid operation'')"
    by (simp add: getOperationType_invalid)
  with a have miss: "rt_operationTypes rt (fst document) = None"
    by (cases "rt_operationTypes rt (fst document)") auto
  from miss invalid
  have "memoizedGetOperationType document rt
          = (Inl (Error ''Must provide document with a valid operation''), rt)"
    by (simp add: memoizedGetOperationType_def)
  then show "meshSdkRequester g globalContext document variables contextValue rt
           = (Returns (Rejected (Error ''Must provide document with a valid operation'')), rt)"
    by (simp add: meshSdkRequester_def async_def)
next
  fix k rt'
  assume "memoizedGetOperationType document rt = (Inr k, rt')"
  then show "rt_operationTypes rt' (fst document) = Some k"
    by (rule memoized_stores)
next
  fix k rt' content
  assume "memoizedGetOperationType document rt = (Inr k, rt')"
  then have "rt_operationTypes rt' (fst document) = Some k"
    by (rule memoized_stores)
  then show "memoizedGetOperationType (fst document, content) rt' = (Inr k, rt')"
    by (rule memoized_hit)
qed

theorem invalid_document_rejected_witness:
  "meshSdkRequester ex_gateway (JObj []) (9, [OperationDefinition OpQuery (Some ''a''),
                                             OperationDefinition OpMutation (Some ''b'')])
      None Undefined initialRuntime
     = (Returns (Rejected (Error ''Must provide document with a valid operation'')), initialRuntime)
   \<and> fst (memoizedGetOperationType (7, [])
            (snd (memoizedGetOperationType (7, [OperationDefinition OpSubscription None]) initialRuntime)))
       = Inr OpSubscription"
proof -
  let ?two = "(9, [OperationDefinition OpQuery (Some ''a''),
                   OperationDefinition OpMutation (Some ''b'')]) :: ref \<times> document"
  let ?sub = "(7, [OperationDefinition OpSubscription None]) :: ref \<times> document"
  have invalid: "length (filter isOperationDefinition (snd ?two)) \<noteq> 1" by simp
  have fresh: "\<forall>k. rt_operationTypes initialRuntime (fst ?two) = Some k
                 \<longrightarrow> getOperationType (snd ?two) = Inr k"
    by (simp add: initialRuntime_def)
  note main = invalid_document_rejected[of ?two initialRuntime ex_gateway "JObj []" None Undefined]
  from main invalid fresh
  have 1: "meshSdkRequester ex_gateway (JObj []) ?two None Undefined initialRuntime
           = (Returns (Rejected (Error ''Must provide document with a valid operation'')), initialRuntime)"
    by blast
  obtain rt' where run: "memoizedGetOperationType ?sub initialRuntime = (Inr OpSubscription, rt')"
    by (simp add: memoizedGetOperationType_def initialRuntime_def getOperationType_def getOperationAST_def)
  from invalid_document_rejected[of ?sub initialRuntime ex_gateway "JObj []" None Undefined] run
  have "memoizedGetOperationType (fst ?sub, []) rt' = (Inr OpSubscription, rt')"
    by blast
  then have 2: "fst (memoizedGetOperationType (7, []) (snd (memoizedGetOperationType ?sub initialRuntime)))
                 = Inr OpSubscription"
    by (simp add: run)
  from 1 2 show ?thesis by simp
qed

text \<open>For a document without definitions the requester returns a rejected promise; it
  does not throw.\<close>

theorem requester_rejects_counterexample:
  "getOperationAST [] = None
   \<and> fst (meshSdkRequester ex_gateway (JObj []) (9, []) None Undefined initialRuntime)
       = Returns (Rejected (Error ''Must provide document with a valid operation''))
   \<and> fst (meshSdkRequester ex_gateway (JObj []) (9, []) None Undefined initialRuntime)
       \<noteq> Throws (Error ''Must provide document with a valid operation'')"
  by (simp add: meshSdkRequester_def memoizedGetOperationType_def initialRuntime_def
        getOperationType_def getOperationAST_def async_def)

end
